theory Spec2Isabelle
  imports Complex_Main "HOL-Library.Word"
begin

unbundle bit_operations_syntax

section \<open>Data model\<close>

text \<open>
  The metrics backend answers with a JSON array of series, each carrying a list of
  points; a point is an array whose first entry is the value or null
  (\<^verbatim>\<open>type Result []struct{ Datapoints [][]*float64 }\<close>). JSON has no NaN and no
  infinities, so every value that is present is a finite float64, and the comparisons
  the code makes on them are the comparisons of the reals they denote. The warn and
  error levels are modelled as reals too; \<^verbatim>\<open>strconv.ParseFloat\<close> would also accept
  NaN and the infinities for them, and such levels are outside the model.
\<close>

type_synonym point = "real option list"

record target =
  Datapoints :: "point list"

type_synonym Result = "target list"

text \<open>\<^verbatim>\<open>monzero.CheckResult\<close>: an exit code (a Go int) and a message.\<close>

record CheckResult =
  ExitCode :: int
  Message :: string

text \<open>Run-time panics of the Go code that the model keeps as values.\<close>

datatype panic = IndexOutOfRange | SliceBoundsOutOfRange | NilPointerDereference

section \<open>Threshold evaluation\<close>

text \<open>
  The body of the innermost loop of \<^verbatim>\<open>runner.runCheck\<close> (and, letter for letter, of
  the older \<^verbatim>\<open>runCheck\<close> in main.go) for a point whose value \<open>v\<close> is present. The
  loop state is the pair of \<^verbatim>\<open>curVal\<close> (nil before the first value) and the running
  exit code.
\<close>

type_synonym eval_state = "real option \<times> int"

definition scan_point :: "real \<Rightarrow> real \<Rightarrow> real \<Rightarrow> eval_state \<Rightarrow> eval_state" where
  "scan_point levelWarn levelErr v st =
     (case st of (curVal, exitCode) \<Rightarrow>
        if levelErr < levelWarn then
          (let curVal' = (case curVal of None \<Rightarrow> Some v
                          | Some c \<Rightarrow> if v < c then Some v else Some c)
           in if v \<le> levelErr \<and> exitCode \<noteq> 1 then (curVal', 2)
              else if v \<le> levelWarn \<and> exitCode = 0 then (curVal', 1)
              else (curVal', exitCode))
        else
          (let curVal' = (case curVal of None \<Rightarrow> Some v
                          | Some c \<Rightarrow> if v > c then Some v else Some c)
           in if v \<ge> levelErr \<and> exitCode \<noteq> 1 then (curVal', 2)
              else if v \<ge> levelWarn \<and> exitCode = 0 then (curVal', 1)
              else (curVal', exitCode)))"

text \<open>
  \<^verbatim>\<open>for _, point := range target.Datapoints\<close>: \<^verbatim>\<open>point[0]\<close> panics on an empty
  point, a nil first entry is skipped.
\<close>

fun scan_datapoints :: "real \<Rightarrow> real \<Rightarrow> point list \<Rightarrow> eval_state \<Rightarrow> panic + eval_state" where
  "scan_datapoints levelWarn levelErr [] st = Inr st"
| "scan_datapoints levelWarn levelErr (p # ps) st =
     (case p of
        [] \<Rightarrow> Inl IndexOutOfRange
      | None # _ \<Rightarrow> scan_datapoints levelWarn levelErr ps st
      | Some v # _ \<Rightarrow> scan_datapoints levelWarn levelErr ps (scan_point levelWarn levelErr v st))"

text \<open>\<^verbatim>\<open>for _, target := range payload\<close>.\<close>

fun scan_payload :: "real \<Rightarrow> real \<Rightarrow> Result \<Rightarrow> eval_state \<Rightarrow> panic + eval_state" where
  "scan_payload levelWarn levelErr [] st = Inr st"
| "scan_payload levelWarn levelErr (t # ts) st =
     (case scan_datapoints levelWarn levelErr (Datapoints t) st of
        Inl e \<Rightarrow> Inl e
      | Inr st' \<Rightarrow> scan_payload levelWarn levelErr ts st')"

text \<open>
  Two notions to say what the scan computes: the values that are present in a payload,
  in the order of the scan, and the code that the first value at or beyond the warn
  level decides (2 if it is at or beyond the error level too, else 1; 0 without
  such a value).
\<close>

definition present :: "Result \<Rightarrow> real list" where
  "present ts = concat (map (\<lambda>t. concat (map (\<lambda>p. case p of Some v # _ \<Rightarrow> [v] | _ \<Rightarrow> []) (Datapoints t))) ts)"

definition first_alarm :: "real \<Rightarrow> real \<Rightarrow> real list \<Rightarrow> int" where
  "first_alarm w e vs =
     (if e < w then (case find (\<lambda>v. v \<le> w) vs of None \<Rightarrow> 0 | Some v \<Rightarrow> if v \<le> e then 2 else 1)
      else (case find (\<lambda>v. v \<ge> w) vs of None \<Rightarrow> 0 | Some v \<Rightarrow> if v \<ge> e then 2 else 1))"

section \<open>Decimal integers\<close>

text \<open>
  Go's \<^verbatim>\<open>int\<close> is modelled by \<^typ>\<open>int\<close>; on the 64-bit targets the program is built
  for, its values lie in \<open>[-2^63, 2^63)\<close>, and the model writes the bound out where the
  code depends on it.
\<close>

definition in_int_range :: "int \<Rightarrow> bool" where
  "in_int_range i \<longleftrightarrow> - 9223372036854775808 \<le> i \<and> i \<le> 9223372036854775807"

text \<open>Signed 64-bit wrap-around of an arithmetic result.\<close>

definition wrap64 :: "int \<Rightarrow> int" where
  "wrap64 i = (i + 9223372036854775808) mod 18446744073709551616 - 9223372036854775808"

text \<open>The byte \<^verbatim>\<open>'0' + d\<close> of a digit \<open>d < 10\<close>.\<close>

definition digit_char :: "nat \<Rightarrow> char" where
  "digit_char d =
     (if d = 0 then CHR ''0'' else if d = 1 then CHR ''1'' else if d = 2 then CHR ''2''
      else if d = 3 then CHR ''3'' else if d = 4 then CHR ''4'' else if d = 5 then CHR ''5''
      else if d = 6 then CHR ''6'' else if d = 7 then CHR ''7'' else if d = 8 then CHR ''8''
      else CHR ''9'')"

definition is_digit :: "char \<Rightarrow> bool" where
  "is_digit c \<longleftrightarrow> c \<in> set ''0123456789''"

text \<open>The verb \<^verbatim>\<open>%d\<close> of package fmt: decimal digits, least significant last, after a minus sign for a negative number.\<close>

function digits :: "nat \<Rightarrow> string" where
  "digits n = (if n < 10 then [digit_char n] else digits (n div 10) @ [digit_char (n mod 10)])"
  by pat_completeness auto
termination
  by (relation "measure id") auto

declare digits.simps [simp del]

definition fmt_d :: "int \<Rightarrow> string" where
  "fmt_d i = (if i < 0 then CHR ''-'' # digits (nat (- i)) else digits (nat i))"

text \<open>
  \<^verbatim>\<open>strconv.Atoi\<close>: an optional sign, then at least one decimal digit and nothing
  else; the value must fit an \<^verbatim>\<open>int\<close>. The digit loop is the one of its fast path:
  \<^verbatim>\<open>ch -= '0'; if ch > 9 { error }; n = n*10 + int(ch)\<close> on bytes.
\<close>

fun atoi_digits :: "string \<Rightarrow> nat \<Rightarrow> nat option" where
  "atoi_digits [] n = Some n"
| "atoi_digits (c # cs) n =
     (let ch = (of_char c + 208) mod 256 :: nat
      in if ch > 9 then None else atoi_digits cs (n * 10 + ch))"

definition Atoi :: "string \<Rightarrow> int option" where
  "Atoi s =
     (case s of
        [] \<Rightarrow> None
      | c # cs \<Rightarrow>
          (let ds = (if c = CHR ''-'' \<or> c = CHR ''+'' then cs else s)
           in if ds = [] then None
              else (case atoi_digits ds 0 of
                      None \<Rightarrow> None
                    | Some n \<Rightarrow>
                        (let v = (if c = CHR ''-'' then - int n else int n)
                         in if in_int_range v then Some v else None))))"

section \<open>State history\<close>

text \<open>\<^verbatim>\<open>States []int\<close>, most recent code first.\<close>

type_synonym States = "int list"

text \<open>
  \<^verbatim>\<open>States.Value\<close>. The writes go to a \<^verbatim>\<open>strings.Builder\<close>, which never
  returns an error, so the function always yields its string. The loop writes each
  state with \<^verbatim>\<open>%d\<close> and a comma after every state but the last.
\<close>

fun write_states :: "int list \<Rightarrow> string" where
  "write_states [] = []"
| "write_states [state] = fmt_d state"
| "write_states (state # rest) = fmt_d state @ CHR '','' # write_states rest"

definition Value :: "States \<Rightarrow> string" where
  "Value s =
     (let last = length s
      in if last = 0 then ''{}''
         else ''{'' @ write_states s @ ''}'')"

text \<open>\<^verbatim>\<open>bytes.Trim(src, cutset)\<close>: drop the leading, then the trailing bytes that are in the cutset.\<close>

definition bytes_Trim :: "string \<Rightarrow> string \<Rightarrow> string" where
  "bytes_Trim src cutset =
     rev (dropWhile (\<lambda>c. c \<in> set cutset) (rev (dropWhile (\<lambda>c. c \<in> set cutset) src)))"

text \<open>
  \<^verbatim>\<open>bytes.Split(s, sep)\<close> for a separator of one byte: the pieces between the
  separators; a slice of one element, \<open>s\<close> itself, when \<open>s\<close> has no separator (also when
  \<open>s\<close> is empty).
\<close>

fun bytes_Split :: "string \<Rightarrow> char \<Rightarrow> string list" where
  "bytes_Split [] sep = [[]]"
| "bytes_Split (c # cs) sep =
     (if c = sep then [] # bytes_Split cs sep
      else (case bytes_Split cs sep of
              [] \<Rightarrow> [[c]]
            | piece # pieces \<Rightarrow> (c # piece) # pieces))"

datatype scan_error = CouldNotParseElement string | CouldNotConvert

text \<open>
  \<^verbatim>\<open>States.Scan\<close>. The source value is a byte slice or a value of another dynamic
  type; the result is the error or the new value of the receiver (which an error
  leaves as it was).
\<close>

datatype driver_value = Bytes string | NotBytes

fun scan_states :: "string list \<Rightarrow> scan_error + int list" where
  "scan_states [] = Inr []"
| "scan_states (state # rest) =
     (case Atoi state of
        None \<Rightarrow> Inl (CouldNotParseElement state)
      | Some n \<Rightarrow>
          (case scan_states rest of
             Inl e \<Rightarrow> Inl e
           | Inr ns \<Rightarrow> Inr (n # ns)))"

definition Scan :: "driver_value \<Rightarrow> scan_error + States" where
  "Scan src =
     (case src of
        Bytes b \<Rightarrow>
          (let tmp = bytes_Trim b ''{}'';
               states = bytes_Split tmp CHR '',''
           in scan_states states)
      | NotBytes \<Rightarrow> Inl CouldNotConvert)"

text \<open>\<^verbatim>\<open>States.Add\<close>: \<^verbatim>\<open>append([]int{state}, vals[:statePos]...)\<close>.\<close>

definition Add :: "int \<Rightarrow> States \<Rightarrow> States" where
  "Add state vals =
     (let statePos = (if length vals < 6 then length vals else 5)
      in state # take statePos vals)"

text \<open>\<^verbatim>\<open>States.ToOK\<close>.\<close>

definition ToOK :: "States \<Rightarrow> bool" where
  "ToOK vals =
     (if length vals = 0 then False
      else if length vals \<le> 1 then vals ! 0 = 0
      else if vals ! 0 = 0 \<and> vals ! 1 > 0 then True
      else False)"

section \<open>Command-line flags\<close>

text \<open>
  The executor reads its inputs from the check's command tokens with a
  \<^verbatim>\<open>flag.FlagSet\<close>. The set of \<^verbatim>\<open>runner.runCheck\<close> declares seven flags; the
  set that the worker goroutine of the older main.go declares has the same flags but
  \<^verbatim>\<open>retries\<close>. The record holds the variables the flags point to.
\<close>

record flags_main =
  addr :: string
  interval :: string
  levelWarn :: real
  levelErr :: real
  key :: string
  message :: string

record flags = flags_main +
  retries :: int

text \<open>
  What the program takes from Go's standard library and does not define itself:
  the number parsers behind \<^verbatim>\<open>fs.Float64\<close> and \<^verbatim>\<open>fs.Int\<close> (the error text or the
  value), \<^verbatim>\<open>%q\<close> quoting, \<^verbatim>\<open>url.Parse\<close> with the assembly of the render URL from the
  address, the key and the \<^verbatim>\<open>from\<close> parameter (the error text or the URL),
  \<^verbatim>\<open>json.Unmarshal\<close> into a \<^verbatim>\<open>Result\<close>, and \<^verbatim>\<open>fmt.Sprintf\<close> of a message
  template with one float64 argument.
\<close>

record stdlib =
  ParseFloat :: "string \<Rightarrow> string + real"
  ParseInt :: "string \<Rightarrow> string + int"
  Quote :: "string \<Rightarrow> string"
  render_URL :: "string \<Rightarrow> string \<Rightarrow> string \<Rightarrow> string + string"
  Unmarshal :: "string \<Rightarrow> string + Result"
  Sprintf :: "string \<Rightarrow> real \<Rightarrow> string"

datatype flag_error =
    BadFlagSyntax string
  | ErrHelp
  | NotDefined string
  | NeedsArgument string
  | InvalidValue string string string

definition flag_error_text :: "stdlib \<Rightarrow> flag_error \<Rightarrow> string" where
  "flag_error_text lib err =
     (case err of
        BadFlagSyntax s \<Rightarrow> ''bad flag syntax: '' @ s
      | ErrHelp \<Rightarrow> ''flag: help requested''
      | NotDefined name \<Rightarrow> ''flag provided but not defined: -'' @ name
      | NeedsArgument name \<Rightarrow> ''flag needs an argument: -'' @ name
      | InvalidValue v name e \<Rightarrow>
          ''invalid value '' @ Quote lib v @ '' for flag -'' @ name @ '': '' @ e)"

text \<open>
  The declared flags of a set: the name gives the setter of its variable, which fails
  with an error text where the value does not parse. None of the flags is boolean.
  Go's numeric setters store what the parser returns also when it fails (0 after a
  syntax error, the nearest bound after a range error); here a failing setter leaves
  the variable as it was, and the difference shows only in what a worker of the older
  main.go hands to its next turn after such a failure.
\<close>

type_synonym 'f formal = "string \<Rightarrow> (string \<Rightarrow> 'f \<Rightarrow> string + 'f) option"

definition formal_main :: "stdlib \<Rightarrow> ('a flags_main_scheme) formal" where
  "formal_main lib name =
     (if name = ''addr'' then Some (\<lambda>v f. Inr (f\<lparr>addr := v\<rparr>))
      else if name = ''interval'' then Some (\<lambda>v f. Inr (f\<lparr>interval := v\<rparr>))
      else if name = ''warn'' then
        Some (\<lambda>v f. case ParseFloat lib v of Inl e \<Rightarrow> Inl e | Inr x \<Rightarrow> Inr (f\<lparr>levelWarn := x\<rparr>))
      else if name = ''error'' then
        Some (\<lambda>v f. case ParseFloat lib v of Inl e \<Rightarrow> Inl e | Inr x \<Rightarrow> Inr (f\<lparr>levelErr := x\<rparr>))
      else if name = ''key'' then Some (\<lambda>v f. Inr (f\<lparr>key := v\<rparr>))
      else if name = ''message'' then Some (\<lambda>v f. Inr (f\<lparr>message := v\<rparr>))
      else None)"

definition formal_runner :: "stdlib \<Rightarrow> flags formal" where
  "formal_runner lib name =
     (if name = ''retries'' then
        Some (\<lambda>v f. case ParseInt lib v of Inl e \<Rightarrow> Inl e | Inr n \<Rightarrow> Inr (f\<lparr>retries := n\<rparr>))
      else formal_main lib name)"

text \<open>The default values given at the declarations.\<close>

definition new_flags_main :: flags_main where
  "new_flags_main =
     \<lparr>addr = '''', interval = ''60s'', levelWarn = 0, levelErr = 0, key = '''',
      message = ''current value: %f''\<rparr>"

definition new_flags :: flags where
  "new_flags =
     \<lparr>addr = '''', interval = ''60s'', levelWarn = 0, levelErr = 0, key = '''',
      message = ''current value: %f'', retries = 0\<rparr>"

text \<open>
  \<^verbatim>\<open>FlagSet.parseOne\<close> of package flag. A token shorter than two bytes or not
  starting with a minus ends the flags, and so does \<^verbatim>\<open>--\<close>; a value is what follows
  the first \<^verbatim>\<open>=\<close> after the first byte of the name, or else the next token.
\<close>

definition split_name :: "string \<Rightarrow> string \<times> string option" where
  "split_name name =
     (case name of
        [] \<Rightarrow> (name, None)
      | c # cs \<Rightarrow>
          (case dropWhile (\<lambda>x. x \<noteq> CHR ''='') cs of
             [] \<Rightarrow> (name, None)
           | _ # v \<Rightarrow> (c # takeWhile (\<lambda>x. x \<noteq> CHR ''='') cs, Some v)))"

datatype 'f parsed = Seen 'f "string list" | NoFlag "string list" | Failed flag_error

definition parseOne :: "'f formal \<Rightarrow> 'f \<Rightarrow> string list \<Rightarrow> 'f parsed" where
  "parseOne formal f args =
     (case args of
        [] \<Rightarrow> NoFlag []
      | s # rest \<Rightarrow>
          if length s < 2 \<or> s ! 0 \<noteq> CHR ''-'' then NoFlag args
          else if s ! 1 = CHR ''-'' \<and> length s = 2 then NoFlag rest
          else
            (let numMinuses = (if s ! 1 = CHR ''-'' then 2 else 1 :: nat);
                 name = drop numMinuses s
             in if length name = 0 \<or> name ! 0 = CHR ''-'' \<or> name ! 0 = CHR ''='' then
                  Failed (BadFlagSyntax s)
                else
                  (case split_name name of (name, hasValue) \<Rightarrow>
                     (case formal name of
                        None \<Rightarrow>
                          if name = ''help'' \<or> name = ''h'' then Failed ErrHelp
                          else Failed (NotDefined name)
                      | Some setter \<Rightarrow>
                          (case (hasValue, rest) of
                             (None, []) \<Rightarrow> Failed (NeedsArgument name)
                           | (None, v # rest') \<Rightarrow>
                               (case setter v f of
                                  Inl e \<Rightarrow> Failed (InvalidValue v name e)
                                | Inr f' \<Rightarrow> Seen f' rest')
                           | (Some v, _) \<Rightarrow>
                               (case setter v f of
                                  Inl e \<Rightarrow> Failed (InvalidValue v name e)
                                | Inr f' \<Rightarrow> Seen f' rest))))))"

text \<open>The flag name that a token carries when \<^verbatim>\<open>parseOne\<close> reads it as a flag.\<close>

definition flag_name :: "string \<Rightarrow> string" where
  "flag_name s = fst (split_name (drop (if 2 \<le> length s \<and> s ! 1 = CHR ''-'' then 2 else 1) s))"

lemma parseOne_Seen_shorter:
  "parseOne formal f args = Seen f' args' \<Longrightarrow> length args' < length args"
  by (auto simp: parseOne_def Let_def split: list.splits if_splits prod.splits option.splits sum.splits)

text \<open>
  \<^verbatim>\<open>FlagSet.Parse\<close> with \<^verbatim>\<open>ContinueOnError\<close>: flags are taken one at a time
  until a token is no flag or one fails. The variables set before a failure keep
  their new values, so the result is the state of the variables with the error, if any.
\<close>

function Parse :: "'f formal \<Rightarrow> 'f \<Rightarrow> string list \<Rightarrow> 'f \<times> flag_error option" where
  "Parse formal f args =
     (case parseOne formal f args of
        Seen f' args' \<Rightarrow> Parse formal f' args'
      | NoFlag _ \<Rightarrow> (f, None)
      | Failed err \<Rightarrow> (f, Some err))"
  by pat_completeness auto
termination
  by (relation "measure (\<lambda>(formal, f, args). length args)")
     (auto dest: parseOne_Seen_shorter)

declare Parse.simps [simp del]

section \<open>The HTTP threshold executor\<close>

text \<open>
  What one \<^verbatim>\<open>client.Get\<close> with the reading of the body comes to: the request
  fails, the body cannot be read (the status is known by then), or a status code
  arrives with the raw body. The backend is a function from the URL and the number of
  requests made before (within this run of the executor) to the outcome.
\<close>

datatype get_outcome = GetError string | ReadError int string | Answer int string

type_synonym client = "string \<Rightarrow> nat \<Rightarrow> get_outcome"

text \<open>
  How the request loop is left: by a \<^verbatim>\<open>return\<close> inside it, or at its end (by
  \<^verbatim>\<open>break\<close> or by the loop condition) with the variables \<^verbatim>\<open>res\<close> (nil before
  the first response; only its status code is used later), \<^verbatim>\<open>raw\<close> and
  \<^verbatim>\<open>success\<close>.
\<close>

datatype loop_exit = Returned CheckResult | Ended "int option" string bool

text \<open>
  \<^verbatim>\<open>for i := 0; i < bound; i++\<close> with the body of the request loop. Inside the
  loop \<open>i < bound\<close> and \<open>bound\<close> is an \<^verbatim>\<open>int\<close>, so \<open>i + 1\<close> does not overflow.
  The count \<open>n\<close> is the number of requests issued so far.
\<close>

function request_loop ::
  "CheckResult \<Rightarrow> (nat \<Rightarrow> get_outcome) \<Rightarrow> int \<Rightarrow> int \<Rightarrow> int option \<Rightarrow> string \<Rightarrow> nat
     \<Rightarrow> loop_exit \<times> nat" where
  "request_loop result get bound i res raw n =
     (if i < bound then
        (case get n of
           GetError err \<Rightarrow>
             (Returned (result\<lparr>Message := ''could not get result: '' @ err\<rparr>), Suc n)
         | ReadError status err \<Rightarrow>
             (Returned (result\<lparr>Message := ''could not read content body: '' @ err\<rparr>), Suc n)
         | Answer status raw' \<Rightarrow>
             if status > 500 then
               request_loop result get bound (i + 1) (Some status) raw' (Suc n)
             else if status \<noteq> 200 then
               (Returned (result\<lparr>Message := ''graphite api answered with status code ''
                                              @ fmt_d status\<rparr>), Suc n)
             else (Ended (Some status) raw' True, Suc n))
      else (Ended res raw False, n))"
  by pat_completeness auto
termination
  by (relation "measure (\<lambda>(result, get, bound, i, res, raw, n). nat (bound - i))") auto

declare request_loop.simps [simp del]

text \<open>
  The part of the executor from the check of \<^verbatim>\<open>success\<close> to the end, shared word
  for word (but for the message of the empty case and the template used) by
  \<^verbatim>\<open>runner.runCheck\<close> and the older \<^verbatim>\<open>runCheck\<close>: the dereference of a nil
  \<^verbatim>\<open>res\<close> panics, a body that does not decode gives the result as it stands, and
  the scan of the payload decides the exit code.
\<close>

definition evaluate ::
  "stdlib \<Rightarrow> CheckResult \<Rightarrow> string \<Rightarrow> real \<Rightarrow> real \<Rightarrow> string \<Rightarrow> int option \<Rightarrow> string \<Rightarrow> bool
     \<Rightarrow> panic + CheckResult" where
  "evaluate lib result no_values levelWarn' levelErr' template res raw success =
     (if \<not> success then
        (case res of
           None \<Rightarrow> Inl NilPointerDereference
         | Some status \<Rightarrow>
             Inr (result\<lparr>Message :=
                   ''graphite api has internal problems, answered with status code: ''
                     @ fmt_d status\<rparr>))
      else
        (case Unmarshal lib raw of
           Inl err \<Rightarrow>
             Inr (result\<lparr>Message := ''could not parse json content: '' @ err @ [CHR 0x0A] @ raw\<rparr>)
         | Inr payload \<Rightarrow>
             (case scan_payload levelWarn' levelErr' payload (None, 0) of
                Inl p \<Rightarrow> Inl p
              | Inr (curVal, exitCode) \<Rightarrow>
                  (case curVal of
                     None \<Rightarrow> Inr (result\<lparr>ExitCode := 2, Message := no_values\<rparr>)
                   | Some v \<Rightarrow>
                       Inr (result\<lparr>ExitCode := exitCode,
                                   Message := Sprintf lib (template @ [CHR 0x0A]) v\<rparr>)))))"

text \<open>\<^verbatim>\<open>monzero.Check\<close>.\<close>

record Check =
  Command :: "string list"
  ExitCodes :: "int list"
  id' :: int
  mappingId :: int

text \<open>
  \<^verbatim>\<open>runner.runCheck\<close>. The context argument is not used by the function and is
  left out. The result comes with the number of requests that were sent.
  \<^verbatim>\<open>check.Command[1:]\<close> panics on an empty command, and the loop bound
  \<^verbatim>\<open>*retries+1\<close> wraps around like every \<^verbatim>\<open>int\<close> addition.
\<close>

definition runner_runCheck :: "stdlib \<Rightarrow> client \<Rightarrow> Check \<Rightarrow> (panic + CheckResult) \<times> nat" where
  "runner_runCheck lib c check =
     (let result = \<lparr>ExitCode = 3, Message = []\<rparr>
      in case Command check of
           [] \<Rightarrow> (Inl SliceBoundsOutOfRange, 0)
         | _ # args \<Rightarrow>
             (case Parse (formal_runner lib) new_flags args of
                (fs, Some err) \<Rightarrow>
                  (Inr (result\<lparr>Message := ''could not parse arguments: '' @ flag_error_text lib err\<rparr>), 0)
              | (fs, None) \<Rightarrow>
                  if addr fs = [] then (Inr (result\<lparr>Message := ''no address given to check''\<rparr>), 0)
                  else if interval fs = [] then (Inr (result\<lparr>Message := ''no interval given''\<rparr>), 0)
                  else if key fs = [] then (Inr (result\<lparr>Message := ''no key given''\<rparr>), 0)
                  else
                    (case render_URL lib (addr fs) (key fs) (''-'' @ interval fs) of
                       Inl err \<Rightarrow>
                         (Inr (result\<lparr>Message := ''could not parse addr ''
                                  @ [CHR 0x27] @ addr fs @ [CHR 0x27] @ '': '' @ err\<rparr>), 0)
                     | Inr url \<Rightarrow>
                         (case request_loop result (c url) (wrap64 (retries fs + 1)) 0 None [] 0 of
                            (Returned r, n) \<Rightarrow> (Inr r, n)
                          | (Ended res raw success, n) \<Rightarrow>
                              (evaluate lib result ''No values received for query! Is the host down?''
                                 (levelWarn fs) (levelErr fs) (message fs) res raw success, n)))))"

text \<open>
  The older \<^verbatim>\<open>runCheck\<close> of main.go. It returns a message and an exit code, held
  here in a \<^verbatim>\<open>CheckResult\<close>; it tries twice at most; and the template of its final
  message is the global flag \<^verbatim>\<open>*message\<close> of the process, not its parameter
  \<^verbatim>\<open>msg\<close>.
\<close>

definition runCheck ::
  "stdlib \<Rightarrow> string \<Rightarrow> client \<Rightarrow> string \<Rightarrow> string \<Rightarrow> string \<Rightarrow> string \<Rightarrow> real \<Rightarrow> real
     \<Rightarrow> (panic + CheckResult) \<times> nat" where
  "runCheck lib global_message c addr' key' msg intVal levelWarn' levelErr' =
     (let result = \<lparr>ExitCode = 3, Message = []\<rparr>
      in if addr' = [] then (Inr (result\<lparr>Message := ''no address given to check''\<rparr>), 0)
         else if intVal = [] then (Inr (result\<lparr>Message := ''no interval given''\<rparr>), 0)
         else if key' = [] then (Inr (result\<lparr>Message := ''no key given''\<rparr>), 0)
         else
           (case render_URL lib addr' key' (''-'' @ intVal) of
              Inl err \<Rightarrow>
                (Inr (result\<lparr>Message := ''could not parse addr ''
                         @ [CHR 0x27] @ addr' @ [CHR 0x27] @ '': '' @ err\<rparr>), 0)
            | Inr url \<Rightarrow>
                (case request_loop result (c url) 2 0 None [] 0 of
                   (Returned r, n) \<Rightarrow> (Inr r, n)
                 | (Ended res raw success, n) \<Rightarrow>
                     (evaluate lib result ''no values received! Is the host down?!''
                        levelWarn' levelErr' global_message res raw success, n))))"

section \<open>The work table and the update of a check\<close>

text \<open>
  A row of \<^verbatim>\<open>active_checks\<close>, with the columns that the cycle reads or writes.
  Times are seconds.
\<close>

record active_check =
  check_id :: int
  cmdLine :: "string list"
  states :: "int list"
  mapping_id :: int
  msg :: string
  acknowledged :: bool
  next_time :: int
  intval :: int
  state_since :: int

text \<open>
  The \<^verbatim>\<open>update active_checks\<close> statement, the same text in \<^verbatim>\<open>Checker.Next\<close> and in
  the worker of the older main.go, with \<open>$2\<close> the new exit code, \<open>$3\<close> the message and
  \<open>$4\<close> the recovery flag: \<^verbatim>\<open>states = ARRAY[$2::int] || states[1:4]\<close>,
  \<^verbatim>\<open>acknowledged = case when $4 then false else acknowledged end\<close>,
  \<^verbatim>\<open>state_since = case $2 when states[1] then state_since else now() end\<close>
  (\<^verbatim>\<open>states[1]\<close> of an empty array is null and equals nothing).
\<close>

definition update_active_check :: "int \<Rightarrow> int \<Rightarrow> string \<Rightarrow> bool \<Rightarrow> active_check \<Rightarrow> active_check" where
  "update_active_check now state m toOK ac =
     ac\<lparr>next_time := now + intval ac,
        states := [state] @ take 4 (states ac),
        msg := m,
        acknowledged := (if toOK then False else acknowledged ac),
        state_since := (case states ac of
                          [] \<Rightarrow> now
                        | s1 # _ \<Rightarrow> if state = s1 then state_since ac else now)\<rparr>"

text \<open>
  What the database does to one cycle: whether the transaction begins, what the
  select finds, and whether the two statements succeed. A failure rolls the
  transaction back and leaves the row as it was.
\<close>

datatype select_outcome = NoRows | ScanFailed | Row active_check

record tx =
  begin_ok :: bool
  selected :: select_outcome
  update_ok :: bool
  insert_ok :: bool

section \<open>The coordinator: Checker.Next\<close>

datatype ctx_err = NoErr | Canceled | DeadlineExceeded

text \<open>
  The checker holds the timeout (here the text that \<^verbatim>\<open>%s\<close> prints for the
  duration), the executor and the logger, which is nil unless the configuration sets
  it. A run of the executor panics or yields its result together with what
  \<^verbatim>\<open>ctx.Err()\<close> says when it returns.
\<close>

record Checker =
  timeout :: string
  executor :: "Check \<Rightarrow> panic + CheckResult \<times> ctx_err"
  logger :: "unit option"

datatype next_error =
    ErrNoCheck
  | CouldNotStartTransaction
  | CouldNotGetNextCheck
  | CouldNotUpdateCheck int
  | CouldNotCreateNotification int

text \<open>The call of the executor in \<^verbatim>\<open>Checker.Next\<close>: its result, overwritten when the deadline has passed.\<close>

definition run_executor :: "Checker \<Rightarrow> Check \<Rightarrow> panic + CheckResult" where
  "run_executor c check =
     (case executor c check of
        Inl p \<Rightarrow> Inl p
      | Inr (result, err) \<Rightarrow>
          if err = DeadlineExceeded then
            Inr (result\<lparr>Message := ''check took longer than '' @ timeout c, ExitCode := 2\<rparr>)
          else Inr result)"

text \<open>The recovery flag \<^verbatim>\<open>backToOkay\<close> of \<^verbatim>\<open>Checker.Next\<close>.\<close>

definition backToOkay :: "Check \<Rightarrow> CheckResult \<Rightarrow> bool" where
  "backToOkay check result =
     (if length (ExitCodes check) = 0 \<and> ExitCode result = 0 then True
      else if length (ExitCodes check) > 0 \<and> ExitCodes check ! 0 > 0 \<and> ExitCode result = 0 then True
      else False)"

text \<open>
  The check that the select fills from the row, and
  \<^verbatim>\<open>Checker.Next\<close>: a panic (of the executor, or of \<^verbatim>\<open>c.logger.Debug\<close> on a nil
  logger), the error returned, or the row as committed. The insert into
  \<^verbatim>\<open>notifications\<close> writes to another table and is present only as its success.
\<close>

definition check_of :: "active_check \<Rightarrow> Check" where
  "check_of ac =
     \<lparr>Command = cmdLine ac, ExitCodes = states ac, id' = check_id ac, mappingId = mapping_id ac\<rparr>"

definition Next :: "Checker \<Rightarrow> int \<Rightarrow> tx \<Rightarrow> panic + next_error + active_check" where
  "Next c now t =
     (if \<not> begin_ok t then Inr (Inl CouldNotStartTransaction)
      else case selected t of
             NoRows \<Rightarrow> Inr (Inl ErrNoCheck)
           | ScanFailed \<Rightarrow> Inr (Inl CouldNotGetNextCheck)
           | Row ac \<Rightarrow>
               (let check = check_of ac
                in case run_executor c check of
                     Inl p \<Rightarrow> Inl p
                   | Inr result \<Rightarrow>
                       (case logger c of
                          None \<Rightarrow> Inl NilPointerDereference
                        | Some _ \<Rightarrow>
                            (let toOK = backToOkay check result
                             in if \<not> update_ok t then Inr (Inl (CouldNotUpdateCheck (id' check)))
                                else if \<not> insert_ok t then
                                  Inr (Inl (CouldNotCreateNotification (id' check)))
                                else Inr (Inr (update_active_check now (ExitCode result)
                                                 (Message result) toOK ac))))))"

text \<open>
  \<^verbatim>\<open>runner.runCheck\<close> as the executor of a checker, the way \<^verbatim>\<open>main\<close> sets it
  up. What the context says when it returns depends on the time the requests took.
\<close>

definition runner_executor :: "stdlib \<Rightarrow> client \<Rightarrow> ctx_err \<Rightarrow> Check \<Rightarrow> panic + CheckResult \<times> ctx_err" where
  "runner_executor lib c err check =
     (case fst (runner_runCheck lib c check) of
        Inl p \<Rightarrow> Inl p
      | Inr result \<Rightarrow> Inr (result, err))"

section \<open>The worker of the older main.go\<close>

text \<open>
  The text in which the driver hands an \<^verbatim>\<open>int[]\<close> column to \<^verbatim>\<open>States.Scan\<close>:
  the elements in decimal between braces, separated by commas.
\<close>

definition array_out :: "int list \<Rightarrow> string" where
  "array_out xs = ''{'' @ write_states xs @ ''}''"

text \<open>
  One turn of the \<^verbatim>\<open>for\<close> loop of a worker goroutine. The flag set \<open>fs\<close> is
  created before the loop, so its variables are part of the state that one turn hands
  to the next. The turn ends with a panic, without a committed change (\<open>None\<close>), or
  with the committed row.
\<close>

definition worker_turn ::
  "stdlib \<Rightarrow> string \<Rightarrow> client \<Rightarrow> int \<Rightarrow> tx \<Rightarrow> flags_main
     \<Rightarrow> flags_main \<times> (panic + active_check option)" where
  "worker_turn lib global_message c now t fs =
     (if \<not> begin_ok t then (fs, Inr None)
      else case selected t of
             NoRows \<Rightarrow> (fs, Inr None)
           | ScanFailed \<Rightarrow> (fs, Inr None)
           | Row ac \<Rightarrow>
               (case Scan (Bytes (array_out (states ac))) of
                  Inl e \<Rightarrow> (fs, Inr None)
                | Inr states' \<Rightarrow>
                    (case cmdLine ac of
                       [] \<Rightarrow> (fs, Inl SliceBoundsOutOfRange)
                     | _ # args \<Rightarrow>
                         (case Parse (formal_main lib) fs args of (fs', perr) \<Rightarrow>
                            (case (case perr of
                                     Some err \<Rightarrow>
                                       Inr \<lparr>ExitCode = 3,
                                            Message = ''could not parse arguments: ''
                                                        @ flag_error_text lib err\<rparr>
                                   | None \<Rightarrow>
                                       fst (runCheck lib global_message c (addr fs') (key fs')
                                              (message fs') (interval fs') (levelWarn fs') (levelErr fs')))
                             of
                               Inl p \<Rightarrow> (fs', Inl p)
                             | Inr r \<Rightarrow>
                                 if \<not> update_ok t then (fs', Inr None)
                                 else if \<not> insert_ok t then (fs', Inr None)
                                 else (fs', Inr (Some (update_active_check now (ExitCode r) (Message r)
                                                         (ToOK states') ac))))))))"

section \<open>The subprocess executor\<close>






section \<open>A concrete environment\<close>

text \<open>
  The evaluations at concrete inputs below need a standard library and a backend.
  The numbers are parsed as decimal integers, the URL is put together by
  concatenation, the decoder knows one body (a single series with the values 3 and 1),
  and the message is the template itself.
\<close>

definition series_3_1 :: string where
  \<open>series_3_1 = ''[{"datapoints":[[3,100],[1,101]]}]''\<close>

definition sample_lib :: stdlib where
  "sample_lib =
     \<lparr>ParseFloat = (\<lambda>s. case Atoi s of None \<Rightarrow> Inl ''parse error'' | Some n \<Rightarrow> Inr (of_int n)),
      ParseInt = (\<lambda>s. case Atoi s of None \<Rightarrow> Inl ''parse error'' | Some n \<Rightarrow> Inr n),
      Quote = (\<lambda>s. [CHR 0x22] @ s @ [CHR 0x22]),
      render_URL = (\<lambda>a k f. Inr (a @ ''/render?format=json&from='' @ f @ ''&target='' @ k)),
      Unmarshal = (\<lambda>raw. if raw = series_3_1
                          then Inr [\<lparr>Datapoints = [[Some 3, Some 100], [Some 1, Some 101]]\<rparr>]
                          else Inl ''invalid character''),
      Sprintf = (\<lambda>template v. template)\<rparr>"

text \<open>A backend that answers every request with status 200 and that body, and one that is in maintenance.\<close>

definition backend_ok :: client where
  "backend_ok url n = Answer 200 series_3_1"

definition backend_503 :: client where
  "backend_503 url n = Answer 503 []"

text \<open>
  A database cycle that claims the given row and in which every statement succeeds,
  and a row for a check with the given command tokens and history.
\<close>

definition claimed :: "active_check \<Rightarrow> tx" where
  "claimed ac = \<lparr>begin_ok = True, selected = Row ac, update_ok = True, insert_ok = True\<rparr>"

definition row_of :: "string list \<Rightarrow> int list \<Rightarrow> bool \<Rightarrow> active_check" where
  "row_of tokens history ack =
     \<lparr>check_id = 7, cmdLine = tokens, states = history, mapping_id = 1, msg = ''ok'',
      acknowledged = ack, next_time = 100, intval = 60, state_since = 40\<rparr>"

text \<open>A checker whose executor comes back after the deadline, with a result of its own.\<close>

definition late_checker :: Checker where
  "late_checker =
     \<lparr>timeout = ''30s'',
      executor = (\<lambda>check. Inr (\<lparr>ExitCode = 3, Message = ''could not get result''\<rparr>, DeadlineExceeded)),
      logger = Some ()\<rparr>"

section \<open>Properties of the threshold evaluation\<close>

text \<open>The equations that evaluate the executor at a concrete input.\<close>

lemmas eval_simps = runner_runCheck_def runCheck_def evaluate_def request_loop.simps wrap64_def
  scan_point_def series_3_1_def Parse.simps parseOne_def split_name_def formal_runner_def
  formal_main_def sample_lib_def new_flags_def new_flags_main_def Atoi_def in_int_range_def
  backend_ok_def backend_503_def fmt_d_def digits.simps digit_char_def

lemma scan_point_sticky: "snd (scan_point w e v (c, 2)) = 2"
  by (simp add: scan_point_def Let_def)

lemma scan_datapoints_sticky:
  "scan_datapoints w e ps (c, 2) = Inr st' \<Longrightarrow> snd st' = 2"
proof (induction ps arbitrary: c)
  case Nil
  then show ?case by auto
next
  case (Cons p ps)
  show ?case
  proof (cases p)
    case Nil
    with Cons.prems show ?thesis by simp
  next
    case (Cons x xs)
    note p = this
    show ?thesis
    proof (cases x)
      case None
      with p Cons.prems Cons.IH show ?thesis by simp
    next
      case (Some v)
      obtain c' where "scan_point w e v (c, 2) = (c', 2)"
        using scan_point_sticky [of w e v c] by (cases "scan_point w e v (c, 2)") simp
      with Some p Cons.prems Cons.IH show ?thesis by simp
    qed
  qed
qed

lemma scan_payload_sticky:
  "scan_payload w e ts (c, 2) = Inr st' \<Longrightarrow> snd st' = 2"
proof (induction ts arbitrary: c)
  case Nil
  then show ?case by auto
next
  case (Cons t ts)
  from Cons.prems obtain st1 where
    a: "scan_datapoints w e (Datapoints t) (c, 2) = Inr st1" and
    b: "scan_payload w e ts st1 = Inr st'"
    by (auto split: sum.splits)
  from a have "snd st1 = 2" by (rule scan_datapoints_sticky)
  then obtain c1 where "st1 = (c1, 2)" by (cases st1) simp
  with b Cons.IH show ?case by simp
qed

text \<open>
  C7. Within one series evaluation the exit code 2 is sticky: from a loop state whose
  running exit code is 2, processing one more value leaves it at 2, and so does
  processing any further sequence of points of the same series and any further series,
  whenever the scan completes.
\<close>

theorem exit_code_2_is_sticky:
  "snd (scan_point w e v (c, 2)) = 2
   \<and> (scan_datapoints w e ps (c, 2) = Inr st1 \<longrightarrow> snd st1 = 2)
   \<and> (scan_payload w e ts (c, 2) = Inr st2 \<longrightarrow> snd st2 = 2)"
  using scan_point_sticky scan_datapoints_sticky scan_payload_sticky by blast

theorem exit_code_2_is_sticky_witness:
  "scan_datapoints 4 2 [[Some 5, Some 10], [None, Some 20], [Some 3, Some 30]] (Some 1, 2) = Inr (Some 1, 2)
   \<and> scan_payload 4 2 [\<lparr>Datapoints = [[Some 5, Some 10]]\<rparr>, \<lparr>Datapoints = [[Some 3, Some 20]]\<rparr>] (Some 1, 2)
       = Inr (Some 1, 2)
   \<and> snd (Some (1::real), 2::int) = 2"
  using exit_code_2_is_sticky [of 4 2 5 "Some 1"
      "[[Some 5, Some 10], [None, Some 20], [Some 3, Some 30]]" "(Some 1, 2)"
      "[\<lparr>Datapoints = [[Some 5, Some 10]]\<rparr>, \<lparr>Datapoints = [[Some 3, Some 20]]\<rparr>]" "(Some 1, 2)"]
  by (simp add: scan_point_def)

subsection \<open>What the scan computes\<close>

lemma scan_datapoints_fold:
  "scan_datapoints w e ps st = Inr st' \<Longrightarrow>
   st' = foldl (\<lambda>st v. scan_point w e v st) st
           (concat (map (\<lambda>p. case p of Some v # _ \<Rightarrow> [v] | _ \<Rightarrow> []) ps))"
proof (induction ps arbitrary: st)
  case Nil
  then show ?case by simp
next
  case (Cons p ps)
  then show ?case
    by (cases p; cases "hd p") (auto split: list.splits option.splits)
qed

lemma scan_payload_fold:
  "scan_payload w e ts st = Inr st' \<Longrightarrow> st' = foldl (\<lambda>st v. scan_point w e v st) st (present ts)"
proof (induction ts arbitrary: st)
  case Nil
  then show ?case by (simp add: present_def)
next
  case (Cons t ts)
  from Cons.prems obtain st1 where
    a: "scan_datapoints w e (Datapoints t) st = Inr st1" and
    b: "scan_payload w e ts st1 = Inr st'"
    by (auto split: sum.splits)
  from Cons.IH [OF b] scan_datapoints_fold [OF a] show ?case
    by (simp add: present_def)
qed

lemma scan_point_code:
  "snd (scan_point w e v (c, k)) =
     (if e < w then (if v \<le> e \<and> k \<noteq> 1 then 2 else if v \<le> w \<and> k = 0 then 1 else k)
      else (if v \<ge> e \<and> k \<noteq> 1 then 2 else if v \<ge> w \<and> k = 0 then 1 else k))"
  by (simp add: scan_point_def Let_def)

lemma fold_code_1: "snd (foldl (\<lambda>st v. scan_point w e v st) (c, 1) vs) = 1"
proof (induction vs arbitrary: c)
  case Nil
  show ?case by simp
next
  case (Cons v vs)
  obtain c' k where s: "scan_point w e v (c, 1) = (c', k)" by (cases "scan_point w e v (c, 1)")
  with scan_point_code [of w e v c 1] have "k = 1" by simp
  with s Cons show ?case by simp
qed

lemma fold_code_2: "snd (foldl (\<lambda>st v. scan_point w e v st) (c, 2) vs) = 2"
proof (induction vs arbitrary: c)
  case Nil
  show ?case by simp
next
  case (Cons v vs)
  obtain c' k where s: "scan_point w e v (c, 2) = (c', k)" by (cases "scan_point w e v (c, 2)")
  with scan_point_code [of w e v c 2] have "k = 2" by simp
  with s Cons show ?case by simp
qed

lemma fold_first_alarm:
  "snd (foldl (\<lambda>st v. scan_point w e v st) (c, 0) vs) = first_alarm w e vs"
proof (induction vs arbitrary: c)
  case Nil
  show ?case by (simp add: first_alarm_def)
next
  case (Cons v vs)
  obtain c' k where s: "scan_point w e v (c, 0) = (c', k)" by (cases "scan_point w e v (c, 0)")
  with scan_point_code [of w e v c 0]
  have k: "k = (if e < w then (if v \<le> e then 2 else if v \<le> w then 1 else 0)
                else (if v \<ge> e then 2 else if v \<ge> w then 1 else 0))"
    by simp
  show ?case
  proof (cases "k = 0")
    case True
    with k have "if e < w then \<not> v \<le> w else \<not> v \<ge> w" by (auto split: if_splits)
    with True s Cons [of c'] show ?thesis by (auto simp: first_alarm_def)
  next
    case False
    show ?thesis
    proof (cases "k = 1")
      case True
      with k have "if e < w then \<not> v \<le> e \<and> v \<le> w else \<not> v \<ge> e \<and> v \<ge> w"
        by (auto split: if_splits)
      with True s show ?thesis by (auto simp: fold_code_1 first_alarm_def)
    next
      case False
      with \<open>k \<noteq> 0\<close> k have "k = 2" "if e < w then v \<le> e else v \<ge> e"
        by (auto split: if_splits)
      with s show ?thesis by (auto simp: fold_code_2 first_alarm_def)
    qed
  qed
qed

lemma scan_payload_first_alarm:
  assumes "scan_payload w e ts (None, 0) = Inr (cur, code)"
  shows "code = first_alarm w e (present ts)"
proof -
  have "(cur, code) = foldl (\<lambda>st v. scan_point w e v st) (None, 0) (present ts)"
    using scan_payload_fold [OF assms] .
  then have "code = snd (foldl (\<lambda>st v. scan_point w e v st) (None, 0) (present ts))"
    by (metis snd_conv)
  then show ?thesis by (simp add: fold_first_alarm)
qed

lemma first_alarm_zero_iff:
  "first_alarm w e vs = 0 \<longleftrightarrow> (if e < w then \<forall>v\<in>set vs. v > w else \<forall>v\<in>set vs. v < w)"
proof (cases "e < w")
  case True
  have "first_alarm w e vs = 0 \<longleftrightarrow> find (\<lambda>v. v \<le> w) vs = None"
    using True by (simp add: first_alarm_def split: option.splits)
  also have "\<dots> \<longleftrightarrow> (\<forall>v\<in>set vs. v > w)"
    by (auto simp: find_None_iff not_le)
  finally show ?thesis using True by simp
next
  case False
  have "first_alarm w e vs = 0 \<longleftrightarrow> find (\<lambda>v. v \<ge> w) vs = None"
    using False by (simp add: first_alarm_def split: option.splits)
  also have "\<dots> \<longleftrightarrow> (\<forall>v\<in>set vs. v < w)"
    by (auto simp: find_None_iff not_le)
  finally show ?thesis using False by simp
qed

text \<open>
  C1. The claim has every value at or beyond the error level end in the code 2. The
  scan does so only while the running code is not 1: once a value in the warn band
  has set the code 1, a later value beyond the error level leaves it at 1
  (\<open>scan_payload_first_alarm\<close>: the first value at or beyond the warn level decides).
  Ascending, with warn 4 and error 8, the points 5 and 9 end in code 1 although 9 is
  above the error level, while the same points in the other order end in code 2;
  descending, with warn 4 and error 2, the executor answers the series 3, 1 with
  code 1 although 1 is below the error level.
\<close>

theorem error_level_value_after_warn_level_value:
  "scan_payload 4 8 [\<lparr>Datapoints = [[Some 5, Some 100], [Some 9, Some 101]]\<rparr>] (None, 0) = Inr (Some 9, 1)
   \<and> scan_payload 4 8 [\<lparr>Datapoints = [[Some 9, Some 100], [Some 5, Some 101]]\<rparr>] (None, 0) = Inr (Some 9, 2)
   \<and> runner_runCheck sample_lib backend_ok
         \<lparr>Command = [''check_graphite'', ''-addr'', ''http://g'', ''-key'', ''a.b'', ''-warn'', ''4'',
                      ''-error'', ''2''],
          ExitCodes = [], id' = 1, mappingId = 1\<rparr>
       = (Inr \<lparr>ExitCode = 1, Message = ''current value: %f'' @ [CHR 0x0A]\<rparr>, 1)"
  by (simp add: eval_simps)

section \<open>Properties of the state history\<close>

subsection \<open>Decimal text of an integer and back\<close>

lemma digit_char_is_digit: "is_digit (digit_char d)"
  by (simp add: digit_char_def is_digit_def)

lemma digit_cases: "d < 10 \<Longrightarrow> d = 0 \<or> d = 1 \<or> d = 2 \<or> d = 3 \<or> d = 4 \<or> d = 5 \<or> d = 6 \<or> d = 7 \<or> d = 8 \<or> d = (9::nat)"
  by arith

lemma digit_char_value: "d < 10 \<Longrightarrow> (of_char (digit_char d) + 208) mod 256 = d"
  using digit_cases [of d] by (auto simp: digit_char_def)

lemma atoi_digits_append:
  "atoi_digits (xs @ ys) n = (case atoi_digits xs n of None \<Rightarrow> None | Some m \<Rightarrow> atoi_digits ys m)"
  by (induction xs arbitrary: n) (auto simp: Let_def)

lemma atoi_digits_digits: "atoi_digits (digits n) 0 = Some n"
proof (induction n rule: digits.induct)
  case (1 n)
  show ?case
  proof (cases "n < 10")
    case True
    then show ?thesis by (simp add: digits.simps [of n] digit_char_value Let_def)
  next
    case False
    have m: "n mod 10 < 10" by simp
    from False 1 have "atoi_digits (digits (n div 10)) 0 = Some (n div 10)" by simp
    with False show ?thesis
      by (simp add: digits.simps [of n] atoi_digits_append digit_char_value [OF m] Let_def)
  qed
qed

lemma digits_all_digit: "c \<in> set (digits n) \<Longrightarrow> is_digit c"
proof (induction n rule: digits.induct)
  case (1 n)
  then show ?case
    by (cases "n < 10") (auto simp: digits.simps [of n] digit_char_is_digit)
qed

lemma digits_nonempty: "digits n \<noteq> []"
  by (cases "n < 10") (simp_all add: digits.simps [of n])

lemma is_digit_not_special:
  "is_digit c \<Longrightarrow> c \<noteq> CHR ''-'' \<and> c \<noteq> CHR ''+'' \<and> c \<noteq> CHR '','' \<and> c \<noteq> CHR ''{'' \<and> c \<noteq> CHR ''}''"
  by (auto simp: is_digit_def)

lemma Atoi_fmt_d: "in_int_range i \<Longrightarrow> Atoi (fmt_d i) = Some i"
proof (cases "i < 0")
  case True
  assume r: "in_int_range i"
  from True r show ?thesis
    by (simp add: fmt_d_def Atoi_def digits_nonempty atoi_digits_digits)
next
  case False
  assume r: "in_int_range i"
  obtain c cs where d: "digits (nat i) = c # cs"
    using digits_nonempty [of "nat i"] by (cases "digits (nat i)") auto
  then have "is_digit c" using digits_all_digit [of c "nat i"] by simp
  then have "c \<noteq> CHR ''-''" "c \<noteq> CHR ''+''" using is_digit_not_special by auto
  moreover have "atoi_digits (c # cs) 0 = Some (nat i)"
    using atoi_digits_digits [of "nat i"] d by simp
  ultimately show ?thesis using False r d
    by (simp add: fmt_d_def Atoi_def del: atoi_digits.simps)
qed

lemma fmt_d_chars: "c \<in> set (fmt_d i) \<Longrightarrow> c \<noteq> CHR '','' \<and> c \<noteq> CHR ''{'' \<and> c \<noteq> CHR ''}''"
  using digits_all_digit is_digit_not_special
  by (auto simp: fmt_d_def split: if_splits)

lemma fmt_d_nonempty: "fmt_d i \<noteq> []"
  by (simp add: fmt_d_def digits_nonempty)

lemma bytes_Split_nonempty: "bytes_Split s sep \<noteq> []"
  by (induction s) (auto split: list.splits)

lemma bytes_Split_no_sep: "sep \<notin> set a \<Longrightarrow> bytes_Split a sep = [a]"
  by (induction a) auto

lemma bytes_Split_at_sep:
  "sep \<notin> set a \<Longrightarrow> bytes_Split (a @ sep # b) sep = a # bytes_Split b sep"
  by (induction a) auto

lemma bytes_Split_write_states:
  "s \<noteq> [] \<Longrightarrow> bytes_Split (write_states s) CHR '','' = map fmt_d s"
proof (induction s rule: write_states.induct)
  case 1
  then show ?case by simp
next
  case (2 state)
  have "CHR '','' \<notin> set (fmt_d state)" using fmt_d_chars by blast
  then show ?case by (simp add: bytes_Split_no_sep)
next
  case (3 state v va)
  have "CHR '','' \<notin> set (fmt_d state)" using fmt_d_chars by blast
  with 3 show ?case by (simp add: bytes_Split_at_sep)
qed

lemma write_states_chars:
  "c \<in> set (write_states s) \<Longrightarrow> c \<noteq> CHR ''{'' \<and> c \<noteq> CHR ''}''"
  by (induction s rule: write_states.induct) (use fmt_d_chars in auto)

lemma write_states_nonempty: "s \<noteq> [] \<Longrightarrow> write_states s \<noteq> []"
  by (induction s rule: write_states.induct) (simp_all add: fmt_d_nonempty)

lemma dropWhile_id: "xs \<noteq> [] \<Longrightarrow> \<not> P (hd xs) \<Longrightarrow> dropWhile P xs = xs"
  by (cases xs) auto

lemma bytes_Trim_braces:
  assumes "body \<noteq> []" and "\<forall>c\<in>set body. c \<noteq> CHR ''{'' \<and> c \<noteq> CHR ''}''"
  shows "bytes_Trim (''{'' @ body @ ''}'') ''{}'' = body"
proof -
  let ?P = "\<lambda>c. c \<in> set ''{}''"
  have h: "\<not> ?P (hd body)" using assms by (cases body) auto
  have l: "\<not> ?P (hd (rev body))" using assms by (simp add: hd_rev) 
  have "dropWhile ?P (''{'' @ body @ ''}'') = body @ ''}''"
    using assms(1) h by (cases body) auto
  moreover have "dropWhile ?P (rev (body @ ''}'')) = rev body"
    using assms(1) l dropWhile_id [of "rev body" ?P] by simp
  ultimately show ?thesis by (simp add: bytes_Trim_def)
qed

lemma scan_states_fmt_d:
  "\<forall>x\<in>set s. in_int_range x \<Longrightarrow> scan_states (map fmt_d s) = Inr s"
  by (induction s) (simp_all add: Atoi_fmt_d)

lemma Scan_Value_nonempty:
  assumes "s \<noteq> []" and "\<forall>x\<in>set s. in_int_range x"
  shows "Scan (Bytes (Value s)) = Inr s"
proof -
  have "bytes_Trim (''{'' @ write_states s @ ''}'') ''{}'' = write_states s"
    using write_states_nonempty [OF assms(1)] write_states_chars
    by (intro bytes_Trim_braces) blast+
  then show ?thesis
    using assms by (simp add: Scan_def Value_def Let_def bytes_Split_write_states scan_states_fmt_d)
qed

subsection \<open>Round trip\<close>

text \<open>
  C5. The empty history serializes to the explicit empty-list marker \<^verbatim>\<open>{}\<close>, but
  \<^verbatim>\<open>States.Scan\<close> does not read that text back: trimming the braces leaves the
  empty text, splitting it at the commas gives one empty element, and
  \<^verbatim>\<open>strconv.Atoi\<close> fails on it. So the round trip that the claim states for the
  lengths 0 to 5 fails at length 0 (\<open>Scan_Value_nonempty\<close> above proves it for every
  non-empty history of \<^verbatim>\<open>int\<close> values).
\<close>

theorem empty_history_is_not_scanned_back:
  "Value [] = ''{}'' \<and> Scan (Bytes (Value [])) = Inl (CouldNotParseElement [])"
  by (simp add: Value_def Scan_def bytes_Trim_def Atoi_def)

subsection \<open>Depth of the history\<close>

lemma Add_take: "Add state vals = state # take 5 vals"
  by (simp add: Add_def Let_def)

lemma Add_length: "length (Add state vals) = min (length vals) 5 + 1"
  by (simp add: Add_def Let_def)

lemma update_states: "states (update_active_check now state m toOK ac) = state # take 4 (states ac)"
  by (simp add: update_active_check_def)

lemma update_states_length: "length (states (update_active_check now state m toOK ac)) \<le> 5"
  by (simp add: update_active_check_def)

text \<open>
  C6. The claim bounds the history by the depth 5 for \<^verbatim>\<open>States.Add\<close> and for the
  persisted update alike. The update keeps the new code and the first four old ones
  (\<open>update_states\<close>, \<open>update_states_length\<close>); \<^verbatim>\<open>States.Add\<close> keeps the first
  five old ones (\<open>Add_take\<close>), so that a full history of five grows to six.
\<close>

theorem Add_keeps_five_older_entries:
  "Add 9 [1, 2, 3, 4, 5] = [9, 1, 2, 3, 4, 5] \<and> length (Add 9 [1, 2, 3, 4, 5]) = 6"
  by (simp add: Add_def)

section \<open>Properties of the coordinator\<close>

subsection \<open>The recovery flag\<close>

lemma backToOkay_iff:
  "backToOkay check result \<longleftrightarrow>
     (ExitCodes check = [] \<and> ExitCode result = 0) \<or>
     (ExitCodes check \<noteq> [] \<and> hd (ExitCodes check) > 0 \<and> ExitCode result = 0)"
  by (cases "ExitCodes check") (auto simp: backToOkay_def)

lemma ToOK_Add:
  "ToOK (Add new hist) \<longleftrightarrow> (hist = [] \<and> new = 0) \<or> (hist \<noteq> [] \<and> hd hist > 0 \<and> new = 0)"
  by (cases hist) (auto simp: ToOK_def Add_def Let_def)

text \<open>
  C2. The recovery flag is to be true exactly when the new code is 0 and the prior
  history is empty or has a most recent code above 0. \<^verbatim>\<open>Checker.Next\<close> computes
  just that (\<open>backToOkay_iff\<close>), and so would \<^verbatim>\<open>ToOK\<close> on the history with the new
  code added (\<open>ToOK_Add\<close>). The worker of the older main.go passes
  \<^verbatim>\<open>states.ToOK()\<close> of the history as selected, without the new code: for a check
  with the history \<open>[0]\<close> that now fails with code 3 the flag is true and the update
  clears \<^verbatim>\<open>acknowledged\<close>, where \<^verbatim>\<open>Checker.Next\<close> on the same row leaves it set.
\<close>

theorem worker_turn_recovery_flag:
  "worker_turn sample_lib ''current value: %f'' backend_ok 130
       (claimed (row_of [''check_graphite''] [0] True)) new_flags_main
     = (new_flags_main,
        Inr (Some \<lparr>check_id = 7, cmdLine = [''check_graphite''], states = [3, 0], mapping_id = 1,
                   msg = ''no address given to check'', acknowledged = False, next_time = 190,
                   intval = 60, state_since = 130\<rparr>))
   \<and> Next \<lparr>timeout = ''30s'', executor = runner_executor sample_lib backend_ok NoErr, logger = Some ()\<rparr>
       130 (claimed (row_of [''check_graphite''] [0] True))
     = Inr (Inr \<lparr>check_id = 7, cmdLine = [''check_graphite''], states = [3, 0], mapping_id = 1,
                 msg = ''no address given to check'', acknowledged = True, next_time = 190,
                 intval = 60, state_since = 130\<rparr>)"
  by (simp add: worker_turn_def array_out_def Scan_def bytes_Trim_def ToOK_def update_active_check_def
       Next_def run_executor_def runner_executor_def backToOkay_def claimed_def row_of_def
       check_of_def eval_simps)

subsection \<open>Timeouts\<close>

text \<open>
  C3. When the context of a call of \<^verbatim>\<open>Checker.Next\<close> reports that the deadline
  was exceeded, the result that the executor returned is replaced by the exit code 2
  and the message "check took longer than" with the timeout, and whenever the call
  commits, this code (not 3, not the executor's) is the new head of the history and
  this message is the stored one.
\<close>

theorem timeout_replaces_result:
  assumes "selected t = Row ac"
    and "executor c (check_of ac) = Inr (r, DeadlineExceeded)"
  shows "run_executor c (check_of ac)
           = Inr \<lparr>ExitCode = 2, Message = ''check took longer than '' @ timeout c\<rparr>
         \<and> (\<forall>ac'. Next c now t = Inr (Inr ac') \<longrightarrow>
               states ac' = 2 # take 4 (states ac) \<and> msg ac' = ''check took longer than '' @ timeout c)"
  using assms
  by (auto simp: Next_def Let_def run_executor_def update_active_check_def split: if_splits option.splits)

theorem timeout_replaces_result_witness:
  "selected (claimed (row_of [''check_graphite''] [0, 0, 1, 0, 0] False))
     = Row (row_of [''check_graphite''] [0, 0, 1, 0, 0] False)
   \<and> executor late_checker (check_of (row_of [''check_graphite''] [0, 0, 1, 0, 0] False))
     = Inr (\<lparr>ExitCode = 3, Message = ''could not get result''\<rparr>, DeadlineExceeded)
   \<and> run_executor late_checker (check_of (row_of [''check_graphite''] [0, 0, 1, 0, 0] False))
     = Inr \<lparr>ExitCode = 2, Message = ''check took longer than 30s''\<rparr>
   \<and> Next late_checker 130 (claimed (row_of [''check_graphite''] [0, 0, 1, 0, 0] False))
     = Inr (Inr \<lparr>check_id = 7, cmdLine = [''check_graphite''], states = [2, 0, 0, 1, 0], mapping_id = 1,
                 msg = ''check took longer than 30s'', acknowledged = False, next_time = 190,
                 intval = 60, state_since = 130\<rparr>)"
  using timeout_replaces_result [of "claimed (row_of [''check_graphite''] [0, 0, 1, 0, 0] False)"
      "row_of [''check_graphite''] [0, 0, 1, 0, 0] False" late_checker
      "\<lparr>ExitCode = 3, Message = ''could not get result''\<rparr>" 130]
  by (simp add: Next_def run_executor_def backToOkay_def update_active_check_def claimed_def row_of_def
       late_checker_def check_of_def)

section \<open>Properties of the HTTP threshold executor\<close>

subsection \<open>The request loop\<close>

lemma request_loop_count:
  "request_loop result get bound i res raw n = (ex, n') \<Longrightarrow> n \<le> n' \<and> n' \<le> n + nat (bound - i)"
proof (induction result get bound i res raw n rule: request_loop.induct)
  case (1 result get bound i res raw n)
  show ?case
  proof (cases "i < bound")
    case False
    with "1.prems" show ?thesis by (simp add: request_loop.simps [of result get bound i])
  next
    case True
    show ?thesis
    proof (cases "get n")
      case (GetError e)
      with True "1.prems" show ?thesis
        by (auto simp: request_loop.simps [of result get bound i])
    next
      case (ReadError s e)
      with True "1.prems" show ?thesis
        by (auto simp: request_loop.simps [of result get bound i])
    next
      case (Answer s b)
      show ?thesis
      proof (cases "s > 500")
        case False
        with True Answer "1.prems" show ?thesis
          by (auto simp: request_loop.simps [of result get bound i] split: if_splits)
      next
        case big: True
        with True Answer "1.prems"
        have "request_loop result get bound (i + 1) (Some s) b (Suc n) = (ex, n')"
          by (simp add: request_loop.simps [of result get bound i])
        from "1.IH" [OF True Answer big this] True show ?thesis by auto
      qed
    qed
  qed
qed

lemma request_loop_retried:
  "request_loop result get bound i res raw n = (ex, n') \<Longrightarrow>
   n \<le> k \<Longrightarrow> Suc k < n' \<Longrightarrow> \<exists>s b. get k = Answer s b \<and> 500 < s"
proof (induction result get bound i res raw n rule: request_loop.induct)
  case (1 result get bound i res raw n)
  show ?case
  proof (cases "i < bound")
    case False
    with "1.prems" show ?thesis by (simp add: request_loop.simps [of result get bound i])
  next
    case True
    show ?thesis
    proof (cases "get n")
      case (GetError e)
      with True "1.prems" show ?thesis
        by (auto simp: request_loop.simps [of result get bound i])
    next
      case (ReadError s e)
      with True "1.prems" show ?thesis
        by (auto simp: request_loop.simps [of result get bound i])
    next
      case (Answer s b)
      show ?thesis
      proof (cases "s > 500")
        case False
        with True Answer "1.prems" show ?thesis
          by (auto simp: request_loop.simps [of result get bound i] split: if_splits)
      next
        case big: True
        with True Answer "1.prems"
        have r: "request_loop result get bound (i + 1) (Some s) b (Suc n) = (ex, n')"
          by (simp add: request_loop.simps [of result get bound i])
        show ?thesis
        proof (cases "k = n")
          case True
          with Answer big show ?thesis by simp
        next
          case False
          with "1.prems" have "Suc n \<le> k" by simp
          from "1.IH" [OF True Answer big r this "1.prems"(3)] show ?thesis .
        qed
      qed
    qed
  qed
qed

lemma request_loop_last:
  "request_loop result get bound i res raw n = (ex, n') \<Longrightarrow> i < bound \<Longrightarrow>
   n < n' \<and>
   (case get (n' - 1) of
      GetError err \<Rightarrow> ex = Returned (result\<lparr>Message := ''could not get result: '' @ err\<rparr>)
    | ReadError s err \<Rightarrow> ex = Returned (result\<lparr>Message := ''could not read content body: '' @ err\<rparr>)
    | Answer s b \<Rightarrow>
        if s > 500 then ex = Ended (Some s) b False \<and> n' = n + nat (bound - i)
        else if s \<noteq> 200 then
          ex = Returned (result\<lparr>Message := ''graphite api answered with status code '' @ fmt_d s\<rparr>)
        else ex = Ended (Some s) b True)"
proof (induction result get bound i res raw n rule: request_loop.induct)
  case (1 result get bound i res raw n)
  note lt = \<open>i < bound\<close>
  show ?case
  proof (cases "get n")
    case (GetError e)
    with lt "1.prems" show ?thesis
      by (auto simp: request_loop.simps [of result get bound i])
  next
    case (ReadError s e)
    with lt "1.prems" show ?thesis
      by (auto simp: request_loop.simps [of result get bound i])
  next
    case (Answer s b)
    show ?thesis
    proof (cases "s > 500")
      case False
      with lt Answer "1.prems" show ?thesis
        by (auto simp: request_loop.simps [of result get bound i] split: if_splits)
    next
      case big: True
      with lt Answer "1.prems"
      have r: "request_loop result get bound (i + 1) (Some s) b (Suc n) = (ex, n')"
        by (simp add: request_loop.simps [of result get bound i])
      show ?thesis
      proof (cases "i + 1 < bound")
        case True
        from "1.IH" [OF lt Answer big r True] lt True show ?thesis
          by (auto simp: nat_add_distrib split: get_outcome.splits if_splits)
      next
        case False
        with r have "ex = Ended (Some s) b False" "n' = Suc n"
          by (simp_all add: request_loop.simps [of result get bound "i + 1"])
        moreover from False lt have "nat (bound - i) = 1" by simp
        ultimately show ?thesis using Answer big by simp
      qed
    qed
  qed
qed


lemma wrap64_in_range: "- 9223372036854775808 \<le> i \<Longrightarrow> i \<le> 9223372036854775807 \<Longrightarrow> wrap64 i = i"
  by (simp add: wrap64_def)

lemma runner_runCheck_retry_policy:
  assumes cmd: "Command check = prog # args"
    and parse: "Parse (formal_runner lib) new_flags args = (fs, None)"
    and given: "addr fs \<noteq> []" "interval fs \<noteq> []" "key fs \<noteq> []"
    and url: "render_URL lib (addr fs) (key fs) (''-'' @ interval fs) = Inr url"
    and r: "0 \<le> retries fs" "retries fs < 9223372036854775807"
    and run: "runner_runCheck lib c check = (out, n)"
  shows "0 < n \<and> n \<le> nat (retries fs) + 1
       \<and> (\<forall>k. Suc k < n \<longrightarrow> (\<exists>s b. c url k = Answer s b \<and> 500 < s))
       \<and> (case c url (n - 1) of
            GetError err \<Rightarrow> out = Inr \<lparr>ExitCode = 3, Message = ''could not get result: '' @ err\<rparr>
          | ReadError s err \<Rightarrow>
              out = Inr \<lparr>ExitCode = 3, Message = ''could not read content body: '' @ err\<rparr>
          | Answer s b \<Rightarrow>
              if s > 500 then
                n = nat (retries fs) + 1 \<and>
                out = Inr \<lparr>ExitCode = 3,
                           Message = ''graphite api has internal problems, answered with status code: ''
                                       @ fmt_d s\<rparr>
              else if s \<noteq> 200 then
                out = Inr \<lparr>ExitCode = 3,
                           Message = ''graphite api answered with status code '' @ fmt_d s\<rparr>
              else
                out = evaluate lib \<lparr>ExitCode = 3, Message = []\<rparr>
                        ''No values received for query! Is the host down?''
                        (levelWarn fs) (levelErr fs) (message fs) (Some 200) b True)"
proof -
  let ?result = "\<lparr>ExitCode = 3, Message = []\<rparr>"
  let ?bound = "retries fs + 1"
  have w: "wrap64 ?bound = ?bound" using r by (intro wrap64_in_range) auto
  obtain ex n' where loop: "request_loop ?result (c url) ?bound 0 None [] 0 = (ex, n')"
    by (cases "request_loop ?result (c url) ?bound 0 None [] 0")
  have pos: "(0::int) < ?bound" using r by simp
  have n: "n = n'"
    using run cmd parse given url w loop
    by (auto simp: runner_runCheck_def split: loop_exit.splits)
  have out: "out = (case ex of Returned res \<Rightarrow> Inr res
                    | Ended res raw success \<Rightarrow>
                        evaluate lib ?result ''No values received for query! Is the host down?''
                          (levelWarn fs) (levelErr fs) (message fs) res raw success)"
    using run cmd parse given url w loop
    by (auto simp: runner_runCheck_def split: loop_exit.splits)
  from request_loop_count [OF loop] have c1: "n' \<le> nat (retries fs) + 1"
    using r by (simp add: nat_add_distrib)
  from request_loop_last [OF loop pos] have
    c2: "0 < n'" and
    c3: "(case c url (n' - 1) of
            GetError err \<Rightarrow> ex = Returned (?result\<lparr>Message := ''could not get result: '' @ err\<rparr>)
          | ReadError s err \<Rightarrow> ex = Returned (?result\<lparr>Message := ''could not read content body: '' @ err\<rparr>)
          | Answer s b \<Rightarrow>
              if s > 500 then ex = Ended (Some s) b False \<and> n' = 0 + nat (?bound - 0)
              else if s \<noteq> 200 then
                ex = Returned (?result\<lparr>Message := ''graphite api answered with status code '' @ fmt_d s\<rparr>)
              else ex = Ended (Some s) b True)"
    by auto
  have c4: "\<forall>k. Suc k < n' \<longrightarrow> (\<exists>s b. c url k = Answer s b \<and> 500 < s)"
    using request_loop_retried [OF loop] by simp
  have c5: "(case c url (n' - 1) of
            GetError err \<Rightarrow> out = Inr \<lparr>ExitCode = 3, Message = ''could not get result: '' @ err\<rparr>
          | ReadError s err \<Rightarrow>
              out = Inr \<lparr>ExitCode = 3, Message = ''could not read content body: '' @ err\<rparr>
          | Answer s b \<Rightarrow>
              if s > 500 then
                n' = nat (retries fs) + 1 \<and>
                out = Inr \<lparr>ExitCode = 3,
                           Message = ''graphite api has internal problems, answered with status code: ''
                                       @ fmt_d s\<rparr>
              else if s \<noteq> 200 then
                out = Inr \<lparr>ExitCode = 3,
                           Message = ''graphite api answered with status code '' @ fmt_d s\<rparr>
              else
                out = evaluate lib \<lparr>ExitCode = 3, Message = []\<rparr>
                        ''No values received for query! Is the host down?''
                        (levelWarn fs) (levelErr fs) (message fs) (Some 200) b True)"
  proof (cases "c url (n' - 1)")
    case (GetError e)
    with c3 out show ?thesis by simp
  next
    case (ReadError s e)
    with c3 out show ?thesis by simp
  next
    case (Answer s b)
    with c3 out r show ?thesis
      by (auto simp: evaluate_def nat_add_distrib split: if_splits)
  qed
  show ?thesis unfolding n by (rule conjI [OF c2 conjI [OF c1 conjI [OF c4 c5]]])
qed

text \<open>
  C4. For a retry count that is not negative and below the largest \<^verbatim>\<open>int\<close>,
  \<open>runner_runCheck_retry_policy\<close> above is the retry policy of the claim: a
  failed request or body ends the run with code 3 at once, a status above 500 leads to
  another request until \<open>retries + 1\<close> were sent and then to code 3 with the message
  about internal problems, any other status but 200 ends the run with code 3 at once,
  and only status 200 reaches the evaluation. For the largest \<^verbatim>\<open>int\<close>, which the
  claim includes, the loop bound \<^verbatim>\<open>*retries+1\<close> wraps around to the smallest one:
  no request is sent, and the status code of the nil response is read, which panics
  instead of returning code 3.
\<close>

theorem retries_overflow:
  "runner_runCheck sample_lib backend_503
     \<lparr>Command = [''check_graphite'', ''-addr'', ''http://g'', ''-key'', ''a.b'',
                  ''-retries'', ''9223372036854775807''],
      ExitCodes = [], id' = 1, mappingId = 1\<rparr>
   = (Inl NilPointerDereference, 0)"
  by (simp add: eval_simps)

subsection \<open>Missing inputs\<close>

lemma parseOne_Seen_rest:
  "parseOne formal f args = Seen f' args' \<Longrightarrow> set args' \<subseteq> set (tl args)"
  by (auto simp: parseOne_def Let_def split: list.splits if_splits prod.splits option.splits sum.splits)

lemma parseOne_Seen_setter:
  "parseOne formal f (s # rest) = Seen f' args' \<Longrightarrow>
   \<exists>setter v. formal (flag_name s) = Some setter \<and> setter v f = Inr f'"
  by (auto simp: parseOne_def flag_name_def Let_def not_less
      split: list.splits if_splits prod.splits option.splits sum.splits)

lemma Parse_preserves:
  "Parse formal f args = (fs, perr) \<Longrightarrow> \<forall>s\<in>set args. flag_name s \<noteq> nm \<Longrightarrow>
   \<forall>f f' nm' setter v. formal nm' = Some setter \<longrightarrow> setter v f = Inr f' \<longrightarrow> nm' \<noteq> nm \<longrightarrow> g f' = g f \<Longrightarrow>
   g fs = g f"
proof (induction formal f args rule: Parse.induct)
  case (1 formal f args)
  show ?case
  proof (cases "parseOne formal f args")
    case (Seen f' args')
    with "1.prems" have p: "Parse formal f' args' = (fs, perr)"
      by (simp add: Parse.simps [of formal f args])
    from parseOne_Seen_rest [OF Seen] "1.prems"(2) have "\<forall>s\<in>set args'. flag_name s \<noteq> nm"
      by (cases args) auto
    from "1.IH" [OF Seen p this "1.prems"(3)] have "g fs = g f'" .
    moreover from Seen obtain s rest where s: "args = s # rest"
      by (cases args) (auto simp: parseOne_def)
    from parseOne_Seen_setter [OF Seen [unfolded s]] obtain setter v where
      fs: "formal (flag_name s) = Some setter" and st: "setter v f = Inr f'"
      by blast
    from s "1.prems"(2) have "flag_name s \<noteq> nm" by simp
    with "1.prems"(3) fs st have "g f' = g f" by blast
    ultimately show ?thesis by simp
  next
    case (NoFlag x)
    with "1.prems" show ?thesis by (simp add: Parse.simps [of formal f args])
  next
    case (Failed x)
    with "1.prems" show ?thesis by (simp add: Parse.simps [of formal f args])
  qed
qed

lemma setter_fields:
  assumes "formal_runner lib nm' = Some setter" and "setter v f = Inr f'"
  shows "nm' \<noteq> ''addr'' \<Longrightarrow> addr f' = addr f"
    and "nm' \<noteq> ''key'' \<Longrightarrow> key f' = key f"
    and "nm' \<noteq> ''interval'' \<Longrightarrow> interval f' = interval f"
    and "nm' \<noteq> ''warn'' \<Longrightarrow> levelWarn f' = levelWarn f"
    and "nm' \<noteq> ''error'' \<Longrightarrow> levelErr f' = levelErr f"
    and "nm' \<noteq> ''message'' \<Longrightarrow> message f' = message f"
    and "nm' \<noteq> ''retries'' \<Longrightarrow> retries f' = retries f"
  using assms by (auto simp: formal_runner_def formal_main_def split: if_splits sum.splits)

lemma runner_runCheck_fails_early:
  assumes "Command check = prog # args" and "Parse (formal_runner lib) new_flags args = (fs, perr)"
    and "perr \<noteq> None \<or> addr fs = [] \<or> interval fs = [] \<or> key fs = []"
  shows "\<exists>m. runner_runCheck lib c check = (Inr \<lparr>ExitCode = 3, Message = m\<rparr>, 0)"
  using assms by (cases perr) (auto simp: runner_runCheck_def Let_def)

lemma setter_fields_main:
  assumes "formal_main lib nm' = Some setter" and "setter v f = Inr f'"
  shows "nm' \<noteq> ''addr'' \<Longrightarrow> addr f' = addr f"
    and "nm' \<noteq> ''key'' \<Longrightarrow> key f' = key f"
    and "nm' \<noteq> ''interval'' \<Longrightarrow> interval f' = interval f"
    and "nm' \<noteq> ''warn'' \<Longrightarrow> levelWarn f' = levelWarn f"
    and "nm' \<noteq> ''error'' \<Longrightarrow> levelErr f' = levelErr f"
    and "nm' \<noteq> ''message'' \<Longrightarrow> message f' = message f"
  using assms by (auto simp: formal_main_def split: if_splits sum.splits)

lemma runner_runCheck_empty_command:
  "Command check = [] \<Longrightarrow> runner_runCheck lib c check = (Inl SliceBoundsOutOfRange, 0)"
  by (simp add: runner_runCheck_def)

lemma runner_runCheck_bad_address:
  assumes "Command check = prog # args" and "Parse (formal_runner lib) new_flags args = (fs, None)"
    and "render_URL lib (addr fs) (key fs) (''-'' @ interval fs) = Inl err"
  shows "\<exists>m. runner_runCheck lib c check = (Inr \<lparr>ExitCode = 3, Message = m\<rparr>, 0)"
  using assms by (auto simp: runner_runCheck_def Let_def)

lemma runCheck_fails_early:
  "a = [] \<or> i = [] \<or> k = [] \<Longrightarrow>
   \<exists>m. runCheck lib global_message c a k tmpl i w e = (Inr \<lparr>ExitCode = 3, Message = m\<rparr>, 0)"
  by (auto simp: runCheck_def Let_def)

lemma runCheck_attempts:
  assumes given: "a \<noteq> []" "i \<noteq> []" "k \<noteq> []"
    and url: "render_URL lib a k (''-'' @ i) = Inr url"
    and run: "runCheck lib global_message c a k tmpl i w e = (out, n)"
  shows "0 < n \<and> n \<le> 2
       \<and> (\<forall>j. Suc j < n \<longrightarrow> (\<exists>s b. c url j = Answer s b \<and> 500 < s))
       \<and> (case c url (n - 1) of
            GetError err \<Rightarrow> out = Inr \<lparr>ExitCode = 3, Message = ''could not get result: '' @ err\<rparr>
          | ReadError s err \<Rightarrow>
              out = Inr \<lparr>ExitCode = 3, Message = ''could not read content body: '' @ err\<rparr>
          | Answer s b \<Rightarrow>
              if s > 500 then
                n = 2 \<and>
                out = Inr \<lparr>ExitCode = 3,
                           Message = ''graphite api has internal problems, answered with status code: ''
                                       @ fmt_d s\<rparr>
              else if s \<noteq> 200 then
                out = Inr \<lparr>ExitCode = 3,
                           Message = ''graphite api answered with status code '' @ fmt_d s\<rparr>
              else
                out = evaluate lib \<lparr>ExitCode = 3, Message = []\<rparr>
                        ''no values received! Is the host down?!''
                        w e global_message (Some 200) b True)"
proof -
  let ?result = "\<lparr>ExitCode = 3, Message = []\<rparr>"
  obtain ex n' where loop: "request_loop ?result (c url) 2 0 None [] 0 = (ex, n')"
    by (cases "request_loop ?result (c url) 2 0 None [] 0")
  have pos: "(0::int) < 2" by simp
  have n: "n = n'"
    using run given url loop by (auto simp: runCheck_def split: loop_exit.splits)
  have out: "out = (case ex of Returned res \<Rightarrow> Inr res
                    | Ended res raw success \<Rightarrow>
                        evaluate lib ?result ''no values received! Is the host down?!''
                          w e global_message res raw success)"
    using run given url loop by (auto simp: runCheck_def split: loop_exit.splits)
  from request_loop_count [OF loop] have c1: "n' \<le> 2" by simp
  from request_loop_last [OF loop pos] have
    c2: "0 < n'" and
    c3: "(case c url (n' - 1) of
            GetError err \<Rightarrow> ex = Returned (?result\<lparr>Message := ''could not get result: '' @ err\<rparr>)
          | ReadError s err \<Rightarrow> ex = Returned (?result\<lparr>Message := ''could not read content body: '' @ err\<rparr>)
          | Answer s b \<Rightarrow>
              if s > 500 then ex = Ended (Some s) b False \<and> n' = 0 + nat (2 - 0)
              else if s \<noteq> 200 then
                ex = Returned (?result\<lparr>Message := ''graphite api answered with status code '' @ fmt_d s\<rparr>)
              else ex = Ended (Some s) b True)"
    by auto
  have c4: "\<forall>j. Suc j < n' \<longrightarrow> (\<exists>s b. c url j = Answer s b \<and> 500 < s)"
    using request_loop_retried [OF loop] by simp
  have c5: "(case c url (n' - 1) of
            GetError err \<Rightarrow> out = Inr \<lparr>ExitCode = 3, Message = ''could not get result: '' @ err\<rparr>
          | ReadError s err \<Rightarrow>
              out = Inr \<lparr>ExitCode = 3, Message = ''could not read content body: '' @ err\<rparr>
          | Answer s b \<Rightarrow>
              if s > 500 then
                n' = 2 \<and>
                out = Inr \<lparr>ExitCode = 3,
                           Message = ''graphite api has internal problems, answered with status code: ''
                                       @ fmt_d s\<rparr>
              else if s \<noteq> 200 then
                out = Inr \<lparr>ExitCode = 3,
                           Message = ''graphite api answered with status code '' @ fmt_d s\<rparr>
              else
                out = evaluate lib \<lparr>ExitCode = 3, Message = []\<rparr>
                        ''no values received! Is the host down?!''
                        w e global_message (Some 200) b True)"
  proof (cases "c url (n' - 1)")
    case (GetError e)
    with c3 out show ?thesis by simp
  next
    case (ReadError s e)
    with c3 out show ?thesis by simp
  next
    case (Answer s b)
    with c3 out show ?thesis
      by (auto simp: evaluate_def split: if_splits)
  qed
  show ?thesis unfolding n by (rule conjI [OF c2 conjI [OF c1 conjI [OF c4 c5]]])
qed

lemma Parse_defaults_runner:
  assumes parse: "Parse (formal_runner lib) new_flags args = (fs, perr)"
  shows "(\<forall>s\<in>set args. flag_name s \<noteq> ''addr'') \<longrightarrow> addr fs = []"
    and "(\<forall>s\<in>set args. flag_name s \<noteq> ''key'') \<longrightarrow> key fs = []"
    and "(\<forall>s\<in>set args. flag_name s \<noteq> ''interval'') \<longrightarrow> interval fs = ''60s''"
    and "(\<forall>s\<in>set args. flag_name s \<noteq> ''warn'') \<longrightarrow> levelWarn fs = 0"
    and "(\<forall>s\<in>set args. flag_name s \<noteq> ''error'') \<longrightarrow> levelErr fs = 0"
    and "(\<forall>s\<in>set args. flag_name s \<noteq> ''message'') \<longrightarrow> message fs = ''current value: %f''"
    and "(\<forall>s\<in>set args. flag_name s \<noteq> ''retries'') \<longrightarrow> retries fs = 0"
proof -
  show "(\<forall>s\<in>set args. flag_name s \<noteq> ''addr'') \<longrightarrow> addr fs = []"
    using Parse_preserves [OF parse, of "''addr''" addr] setter_fields(1)
    by (fastforce simp: new_flags_def)
  show "(\<forall>s\<in>set args. flag_name s \<noteq> ''key'') \<longrightarrow> key fs = []"
    using Parse_preserves [OF parse, of "''key''" key] setter_fields(2)
    by (fastforce simp: new_flags_def)
  show "(\<forall>s\<in>set args. flag_name s \<noteq> ''interval'') \<longrightarrow> interval fs = ''60s''"
    using Parse_preserves [OF parse, of "''interval''" interval] setter_fields(3)
    by (fastforce simp: new_flags_def)
  show "(\<forall>s\<in>set args. flag_name s \<noteq> ''warn'') \<longrightarrow> levelWarn fs = 0"
    using Parse_preserves [OF parse, of "''warn''" levelWarn] setter_fields(4)
    by (fastforce simp: new_flags_def)
  show "(\<forall>s\<in>set args. flag_name s \<noteq> ''error'') \<longrightarrow> levelErr fs = 0"
    using Parse_preserves [OF parse, of "''error''" levelErr] setter_fields(5)
    by (fastforce simp: new_flags_def)
  show "(\<forall>s\<in>set args. flag_name s \<noteq> ''message'') \<longrightarrow> message fs = ''current value: %f''"
    using Parse_preserves [OF parse, of "''message''" message] setter_fields(6)
    by (fastforce simp: new_flags_def)
  show "(\<forall>s\<in>set args. flag_name s \<noteq> ''retries'') \<longrightarrow> retries fs = 0"
    using Parse_preserves [OF parse, of "''retries''" retries] setter_fields(7)
    by (fastforce simp: new_flags_def)
qed

lemma Parse_defaults_main:
  assumes parse: "Parse (formal_main lib) new_flags_main args = (fs, perr)"
  shows "(\<forall>s\<in>set args. flag_name s \<noteq> ''addr'') \<longrightarrow> addr fs = []"
    and "(\<forall>s\<in>set args. flag_name s \<noteq> ''key'') \<longrightarrow> key fs = []"
    and "(\<forall>s\<in>set args. flag_name s \<noteq> ''interval'') \<longrightarrow> interval fs = ''60s''"
    and "(\<forall>s\<in>set args. flag_name s \<noteq> ''warn'') \<longrightarrow> levelWarn fs = 0"
    and "(\<forall>s\<in>set args. flag_name s \<noteq> ''error'') \<longrightarrow> levelErr fs = 0"
    and "(\<forall>s\<in>set args. flag_name s \<noteq> ''message'') \<longrightarrow> message fs = ''current value: %f''"
proof -
  show "(\<forall>s\<in>set args. flag_name s \<noteq> ''addr'') \<longrightarrow> addr fs = []"
    using Parse_preserves [OF parse, of "''addr''" addr] setter_fields_main(1)
    by (fastforce simp: new_flags_main_def)
  show "(\<forall>s\<in>set args. flag_name s \<noteq> ''key'') \<longrightarrow> key fs = []"
    using Parse_preserves [OF parse, of "''key''" key] setter_fields_main(2)
    by (fastforce simp: new_flags_main_def)
  show "(\<forall>s\<in>set args. flag_name s \<noteq> ''interval'') \<longrightarrow> interval fs = ''60s''"
    using Parse_preserves [OF parse, of "''interval''" interval] setter_fields_main(3)
    by (fastforce simp: new_flags_main_def)
  show "(\<forall>s\<in>set args. flag_name s \<noteq> ''warn'') \<longrightarrow> levelWarn fs = 0"
    using Parse_preserves [OF parse, of "''warn''" levelWarn] setter_fields_main(4)
    by (fastforce simp: new_flags_main_def)
  show "(\<forall>s\<in>set args. flag_name s \<noteq> ''error'') \<longrightarrow> levelErr fs = 0"
    using Parse_preserves [OF parse, of "''error''" levelErr] setter_fields_main(5)
    by (fastforce simp: new_flags_main_def)
  show "(\<forall>s\<in>set args. flag_name s \<noteq> ''message'') \<longrightarrow> message fs = ''current value: %f''"
    using Parse_preserves [OF parse, of "''message''" message] setter_fields_main(6)
    by (fastforce simp: new_flags_main_def)
qed

lemma runner_runCheck_runs:
  assumes cmd: "Command check = prog # args"
    and parse: "Parse (formal_runner lib) new_flags args = (fs, None)"
    and given: "addr fs \<noteq> []" "interval fs \<noteq> []" "key fs \<noteq> []"
    and url: "render_URL lib (addr fs) (key fs) (''-'' @ interval fs) = Inr url"
    and r: "0 \<le> retries fs" "retries fs < 9223372036854775807"
  shows "\<exists>out n. runner_runCheck lib c check = (out, n) \<and> 0 < n \<and> n \<le> nat (retries fs) + 1
       \<and> (\<forall>k. Suc k < n \<longrightarrow> (\<exists>s b. c url k = Answer s b \<and> 500 < s))
       \<and> (case c url (n - 1) of
            GetError err \<Rightarrow> out = Inr \<lparr>ExitCode = 3, Message = ''could not get result: '' @ err\<rparr>
          | ReadError s err \<Rightarrow>
              out = Inr \<lparr>ExitCode = 3, Message = ''could not read content body: '' @ err\<rparr>
          | Answer s b \<Rightarrow>
              if s > 500 then
                n = nat (retries fs) + 1 \<and>
                out = Inr \<lparr>ExitCode = 3,
                           Message = ''graphite api has internal problems, answered with status code: ''
                                       @ fmt_d s\<rparr>
              else if s \<noteq> 200 then
                out = Inr \<lparr>ExitCode = 3,
                           Message = ''graphite api answered with status code '' @ fmt_d s\<rparr>
              else
                out = evaluate lib \<lparr>ExitCode = 3, Message = []\<rparr>
                        ''No values received for query! Is the host down?''
                        (levelWarn fs) (levelErr fs) (message fs) (Some 200) b True)"
proof -
  obtain out n where run: "runner_runCheck lib c check = (out, n)"
    by (cases "runner_runCheck lib c check")
  from runner_runCheck_retry_policy [OF cmd parse given url r run] run show ?thesis by blast
qed

lemma runner_runCheck_runs_with_defaults:
  assumes cmd: "Command check = prog # args"
    and parse: "Parse (formal_runner lib) new_flags args = (fs, None)"
    and given: "addr fs \<noteq> []" "key fs \<noteq> []"
    and missing: "\<forall>s\<in>set args. flag_name s \<noteq> ''interval'' \<and> flag_name s \<noteq> ''warn''
                    \<and> flag_name s \<noteq> ''error'' \<and> flag_name s \<noteq> ''message''
                    \<and> flag_name s \<noteq> ''retries''"
    and url: "render_URL lib (addr fs) (key fs) ''-60s'' = Inr url"
  shows "\<exists>out. runner_runCheck lib c check = (out, 1)
       \<and> (case c url 0 of
            GetError err \<Rightarrow> out = Inr \<lparr>ExitCode = 3, Message = ''could not get result: '' @ err\<rparr>
          | ReadError s err \<Rightarrow>
              out = Inr \<lparr>ExitCode = 3, Message = ''could not read content body: '' @ err\<rparr>
          | Answer s b \<Rightarrow>
              if s > 500 then
                out = Inr \<lparr>ExitCode = 3,
                           Message = ''graphite api has internal problems, answered with status code: ''
                                       @ fmt_d s\<rparr>
              else if s \<noteq> 200 then
                out = Inr \<lparr>ExitCode = 3,
                           Message = ''graphite api answered with status code '' @ fmt_d s\<rparr>
              else
                out = evaluate lib \<lparr>ExitCode = 3, Message = []\<rparr>
                        ''No values received for query! Is the host down?''
                        0 0 ''current value: %f'' (Some 200) b True)"
proof -
  from missing Parse_defaults_runner [OF parse] have
    d: "interval fs = ''60s''" "levelWarn fs = 0" "levelErr fs = 0"
       "message fs = ''current value: %f''" "retries fs = 0"
    by blast+
  from d url have url': "render_URL lib (addr fs) (key fs) (''-'' @ interval fs) = Inr url" by simp
  obtain out n where run: "runner_runCheck lib c check = (out, n)"
    by (cases "runner_runCheck lib c check")
  from d have "interval fs \<noteq> []" "0 \<le> retries fs" "retries fs < 9223372036854775807" by simp_all
  from runner_runCheck_retry_policy [OF cmd parse given(1) this(1) given(2) url' this(2,3) run]
  have p: "0 < n" "n \<le> nat (retries fs) + 1" and
    q: "(case c url (n - 1) of
            GetError err \<Rightarrow> out = Inr \<lparr>ExitCode = 3, Message = ''could not get result: '' @ err\<rparr>
          | ReadError s err \<Rightarrow>
              out = Inr \<lparr>ExitCode = 3, Message = ''could not read content body: '' @ err\<rparr>
          | Answer s b \<Rightarrow>
              if s > 500 then
                n = nat (retries fs) + 1 \<and>
                out = Inr \<lparr>ExitCode = 3,
                           Message = ''graphite api has internal problems, answered with status code: ''
                                       @ fmt_d s\<rparr>
              else if s \<noteq> 200 then
                out = Inr \<lparr>ExitCode = 3,
                           Message = ''graphite api answered with status code '' @ fmt_d s\<rparr>
              else
                out = evaluate lib \<lparr>ExitCode = 3, Message = []\<rparr>
                        ''No values received for query! Is the host down?''
                        (levelWarn fs) (levelErr fs) (message fs) (Some 200) b True)"
    by blast+
  from p d have n: "n = 1" by simp
  from q show ?thesis unfolding run n d
    by (cases "c url 0") (auto split: if_splits)
qed

text \<open>
  C8, as amended. For a command with at least the program name: when the other tokens
  do not parse, or no token names the backend address or none names the metric key, or
  the address, the key or the lookback interval comes out empty, or the address does
  not parse as a URL, \<^verbatim>\<open>runner.runCheck\<close> returns a result with code 3 and has
  sent no request. A lookback interval, warning level, error level, message template
  or retry count that no token names is not missing: it has its declared default (60s,
  0, 0, "current value: %f", 0), and the check runs. With the address and the key given
  and a retry count from 0 to below the largest \<^verbatim>\<open>int\<close>, at least one request and
  at most one more than the retry count are sent, and the result is the one of the
  retry policy and of the evaluation with the values of the flags; with all five
  unnamed, exactly one request is sent and a status 200 is evaluated with the levels 0
  and 0 and the default template. A command without any token panics before a request
  is sent. The older \<^verbatim>\<open>runCheck\<close> of main.go returns code 3 without a request when
  the address, the interval or the key handed to it is empty, and sends one or two
  requests otherwise; parsed into a freshly declared flag set, the flags that no token
  names have the same defaults there.
\<close>

theorem missing_inputs:
  "(Command check = [] \<longrightarrow> runner_runCheck lib c check = (Inl SliceBoundsOutOfRange, 0))
   \<and> (Command check = prog # args \<and> Parse (formal_runner lib) new_flags args = (fs, perr) \<longrightarrow>
        ((\<forall>s\<in>set args. flag_name s \<noteq> ''addr'') \<or> (\<forall>s\<in>set args. flag_name s \<noteq> ''key'')
            \<or> addr fs = [] \<or> key fs = [] \<or> interval fs = [] \<or> perr \<noteq> None
          \<longrightarrow> (\<exists>m. runner_runCheck lib c check = (Inr \<lparr>ExitCode = 3, Message = m\<rparr>, 0)))
        \<and> (perr = None \<and> render_URL lib (addr fs) (key fs) (''-'' @ interval fs) = Inl err
          \<longrightarrow> (\<exists>m. runner_runCheck lib c check = (Inr \<lparr>ExitCode = 3, Message = m\<rparr>, 0)))
        \<and> ((\<forall>s\<in>set args. flag_name s \<noteq> ''interval'') \<longrightarrow> interval fs = ''60s'')
        \<and> ((\<forall>s\<in>set args. flag_name s \<noteq> ''warn'') \<longrightarrow> levelWarn fs = 0)
        \<and> ((\<forall>s\<in>set args. flag_name s \<noteq> ''error'') \<longrightarrow> levelErr fs = 0)
        \<and> ((\<forall>s\<in>set args. flag_name s \<noteq> ''message'') \<longrightarrow> message fs = ''current value: %f'')
        \<and> ((\<forall>s\<in>set args. flag_name s \<noteq> ''retries'') \<longrightarrow> retries fs = 0)
        \<and> (perr = None \<and> addr fs \<noteq> [] \<and> interval fs \<noteq> [] \<and> key fs \<noteq> []
             \<and> render_URL lib (addr fs) (key fs) (''-'' @ interval fs) = Inr url
             \<and> 0 \<le> retries fs \<and> retries fs < 9223372036854775807
          \<longrightarrow> (\<exists>out n. runner_runCheck lib c check = (out, n) \<and> 0 < n \<and> n \<le> nat (retries fs) + 1
                 \<and> (\<forall>k. Suc k < n \<longrightarrow> (\<exists>s b. c url k = Answer s b \<and> 500 < s))
                 \<and> (case c url (n - 1) of
                      GetError err \<Rightarrow>
                        out = Inr \<lparr>ExitCode = 3, Message = ''could not get result: '' @ err\<rparr>
                    | ReadError s err \<Rightarrow>
                        out = Inr \<lparr>ExitCode = 3, Message = ''could not read content body: '' @ err\<rparr>
                    | Answer s b \<Rightarrow>
                        if s > 500 then
                          n = nat (retries fs) + 1 \<and>
                          out = Inr \<lparr>ExitCode = 3,
                                     Message = ''graphite api has internal problems, answered with status code: ''
                                                 @ fmt_d s\<rparr>
                        else if s \<noteq> 200 then
                          out = Inr \<lparr>ExitCode = 3,
                                     Message = ''graphite api answered with status code '' @ fmt_d s\<rparr>
                        else
                          out = evaluate lib \<lparr>ExitCode = 3, Message = []\<rparr>
                                  ''No values received for query! Is the host down?''
                                  (levelWarn fs) (levelErr fs) (message fs) (Some 200) b True)))
        \<and> (perr = None \<and> addr fs \<noteq> [] \<and> key fs \<noteq> []
             \<and> (\<forall>s\<in>set args. flag_name s \<noteq> ''interval'' \<and> flag_name s \<noteq> ''warn''
                    \<and> flag_name s \<noteq> ''error'' \<and> flag_name s \<noteq> ''message''
                    \<and> flag_name s \<noteq> ''retries'')
             \<and> render_URL lib (addr fs) (key fs) ''-60s'' = Inr url
          \<longrightarrow> (\<exists>out. runner_runCheck lib c check = (out, 1)
                 \<and> (case c url 0 of
                      GetError err \<Rightarrow>
                        out = Inr \<lparr>ExitCode = 3, Message = ''could not get result: '' @ err\<rparr>
                    | ReadError s err \<Rightarrow>
                        out = Inr \<lparr>ExitCode = 3, Message = ''could not read content body: '' @ err\<rparr>
                    | Answer s b \<Rightarrow>
                        if s > 500 then
                          out = Inr \<lparr>ExitCode = 3,
                                     Message = ''graphite api has internal problems, answered with status code: ''
                                                 @ fmt_d s\<rparr>
                        else if s \<noteq> 200 then
                          out = Inr \<lparr>ExitCode = 3,
                                     Message = ''graphite api answered with status code '' @ fmt_d s\<rparr>
                        else
                          out = evaluate lib \<lparr>ExitCode = 3, Message = []\<rparr>
                                  ''No values received for query! Is the host down?''
                                  0 0 ''current value: %f'' (Some 200) b True))))
   \<and> (a = [] \<or> i = [] \<or> k = [] \<longrightarrow>
        (\<exists>m. runCheck lib global_message c a k tmpl i w e = (Inr \<lparr>ExitCode = 3, Message = m\<rparr>, 0)))
   \<and> (a \<noteq> [] \<and> i \<noteq> [] \<and> k \<noteq> [] \<and> render_URL lib a k (''-'' @ i) = Inr url'
        \<longrightarrow> (\<exists>out n. runCheck lib global_message c a k tmpl i w e = (out, n) \<and> 0 < n \<and> n \<le> 2
               \<and> (\<forall>j. Suc j < n \<longrightarrow> (\<exists>s b. c url' j = Answer s b \<and> 500 < s))
               \<and> (case c url' (n - 1) of
                    GetError err \<Rightarrow>
                      out = Inr \<lparr>ExitCode = 3, Message = ''could not get result: '' @ err\<rparr>
                  | ReadError s err \<Rightarrow>
                      out = Inr \<lparr>ExitCode = 3, Message = ''could not read content body: '' @ err\<rparr>
                  | Answer s b \<Rightarrow>
                      if s > 500 then
                        n = 2 \<and>
                        out = Inr \<lparr>ExitCode = 3,
                                   Message = ''graphite api has internal problems, answered with status code: ''
                                               @ fmt_d s\<rparr>
                      else if s \<noteq> 200 then
                        out = Inr \<lparr>ExitCode = 3,
                                   Message = ''graphite api answered with status code '' @ fmt_d s\<rparr>
                      else
                        out = evaluate lib \<lparr>ExitCode = 3, Message = []\<rparr>
                                ''no values received! Is the host down?!''
                                w e global_message (Some 200) b True)))
   \<and> (Parse (formal_main lib) new_flags_main args' = (fm, perr') \<longrightarrow>
        ((\<forall>s\<in>set args'. flag_name s \<noteq> ''addr'') \<longrightarrow> addr fm = [])
        \<and> ((\<forall>s\<in>set args'. flag_name s \<noteq> ''key'') \<longrightarrow> key fm = [])
        \<and> ((\<forall>s\<in>set args'. flag_name s \<noteq> ''interval'') \<longrightarrow> interval fm = ''60s'')
        \<and> ((\<forall>s\<in>set args'. flag_name s \<noteq> ''warn'') \<longrightarrow> levelWarn fm = 0)
        \<and> ((\<forall>s\<in>set args'. flag_name s \<noteq> ''error'') \<longrightarrow> levelErr fm = 0)
        \<and> ((\<forall>s\<in>set args'. flag_name s \<noteq> ''message'') \<longrightarrow> message fm = ''current value: %f''))"
  (is "?empty \<and> (?cmd \<and> ?parse \<longrightarrow> ?early \<and> ?bad \<and> ?di \<and> ?dw \<and> ?de \<and> ?dm \<and> ?dr \<and> ?runs \<and> ?runs_default)
        \<and> ?main_early \<and> ?main_runs \<and> (?parse_main \<longrightarrow> ?main_defaults)")
proof -
  have empty: ?empty by (simp add: runner_runCheck_empty_command)
  have runner: "?cmd \<and> ?parse \<longrightarrow> ?early \<and> ?bad \<and> ?di \<and> ?dw \<and> ?de \<and> ?dm \<and> ?dr \<and> ?runs \<and> ?runs_default"
  proof (intro impI, elim conjE)
    assume cmd: ?cmd and parse: ?parse
    note d = Parse_defaults_runner [OF parse]
    have early: ?early
      using d(1,2) runner_runCheck_fails_early [OF cmd parse, of c] by blast
    have bad: ?bad
    proof (intro impI, elim conjE)
      assume "perr = None" and u: "render_URL lib (addr fs) (key fs) (''-'' @ interval fs) = Inl err"
      with parse have "Parse (formal_runner lib) new_flags args = (fs, None)" by simp
      from runner_runCheck_bad_address [OF cmd this u]
      show "\<exists>m. runner_runCheck lib c check = (Inr \<lparr>ExitCode = 3, Message = m\<rparr>, 0)" .
    qed
    have runs: ?runs
    proof (intro impI, elim conjE)
      assume "perr = None" and g: "addr fs \<noteq> []" "interval fs \<noteq> []" "key fs \<noteq> []"
        and u: "render_URL lib (addr fs) (key fs) (''-'' @ interval fs) = Inr url"
        and r: "0 \<le> retries fs" "retries fs < 9223372036854775807"
      with parse have p: "Parse (formal_runner lib) new_flags args = (fs, None)" by simp
      from runner_runCheck_runs [OF cmd p g u r, of c]
      show "\<exists>out n. runner_runCheck lib c check = (out, n) \<and> 0 < n \<and> n \<le> nat (retries fs) + 1
                 \<and> (\<forall>k. Suc k < n \<longrightarrow> (\<exists>s b. c url k = Answer s b \<and> 500 < s))
                 \<and> (case c url (n - 1) of
                      GetError err \<Rightarrow>
                        out = Inr \<lparr>ExitCode = 3, Message = ''could not get result: '' @ err\<rparr>
                    | ReadError s err \<Rightarrow>
                        out = Inr \<lparr>ExitCode = 3, Message = ''could not read content body: '' @ err\<rparr>
                    | Answer s b \<Rightarrow>
                        if s > 500 then
                          n = nat (retries fs) + 1 \<and>
                          out = Inr \<lparr>ExitCode = 3,
                                     Message = ''graphite api has internal problems, answered with status code: ''
                                                 @ fmt_d s\<rparr>
                        else if s \<noteq> 200 then
                          out = Inr \<lparr>ExitCode = 3,
                                     Message = ''graphite api answered with status code '' @ fmt_d s\<rparr>
                        else
                          out = evaluate lib \<lparr>ExitCode = 3, Message = []\<rparr>
                                  ''No values received for query! Is the host down?''
                                  (levelWarn fs) (levelErr fs) (message fs) (Some 200) b True)" .
    qed
    have runs_default: ?runs_default
    proof (intro impI, elim conjE)
      assume "perr = None" and g: "addr fs \<noteq> []" "key fs \<noteq> []"
        and m: "\<forall>s\<in>set args. flag_name s \<noteq> ''interval'' \<and> flag_name s \<noteq> ''warn''
                    \<and> flag_name s \<noteq> ''error'' \<and> flag_name s \<noteq> ''message''
                    \<and> flag_name s \<noteq> ''retries''"
        and u: "render_URL lib (addr fs) (key fs) ''-60s'' = Inr url"
      with parse have p: "Parse (formal_runner lib) new_flags args = (fs, None)" by simp
      from runner_runCheck_runs_with_defaults [OF cmd p g m u, of c]
      show "\<exists>out. runner_runCheck lib c check = (out, 1)
                 \<and> (case c url 0 of
                      GetError err \<Rightarrow>
                        out = Inr \<lparr>ExitCode = 3, Message = ''could not get result: '' @ err\<rparr>
                    | ReadError s err \<Rightarrow>
                        out = Inr \<lparr>ExitCode = 3, Message = ''could not read content body: '' @ err\<rparr>
                    | Answer s b \<Rightarrow>
                        if s > 500 then
                          out = Inr \<lparr>ExitCode = 3,
                                     Message = ''graphite api has internal problems, answered with status code: ''
                                                 @ fmt_d s\<rparr>
                        else if s \<noteq> 200 then
                          out = Inr \<lparr>ExitCode = 3,
                                     Message = ''graphite api answered with status code '' @ fmt_d s\<rparr>
                        else
                          out = evaluate lib \<lparr>ExitCode = 3, Message = []\<rparr>
                                  ''No values received for query! Is the host down?''
                                  0 0 ''current value: %f'' (Some 200) b True)" .
    qed
    show "?early \<and> ?bad \<and> ?di \<and> ?dw \<and> ?de \<and> ?dm \<and> ?dr \<and> ?runs \<and> ?runs_default"
      by (rule conjI [OF early conjI [OF bad conjI [OF d(3) conjI [OF d(4) conjI [OF d(5)
            conjI [OF d(6) conjI [OF d(7) conjI [OF runs runs_default]]]]]]]])
  qed
  have main_early: ?main_early
    using runCheck_fails_early [of a i k lib global_message c tmpl w e] by blast
  have main_runs: ?main_runs
  proof (intro impI, elim conjE)
    assume g: "a \<noteq> []" "i \<noteq> []" "k \<noteq> []" and u: "render_URL lib a k (''-'' @ i) = Inr url'"
    obtain out n where run: "runCheck lib global_message c a k tmpl i w e = (out, n)"
      by (cases "runCheck lib global_message c a k tmpl i w e")
    from runCheck_attempts [OF g u run] run
    show "\<exists>out n. runCheck lib global_message c a k tmpl i w e = (out, n) \<and> 0 < n \<and> n \<le> 2
               \<and> (\<forall>j. Suc j < n \<longrightarrow> (\<exists>s b. c url' j = Answer s b \<and> 500 < s))
               \<and> (case c url' (n - 1) of
                    GetError err \<Rightarrow>
                      out = Inr \<lparr>ExitCode = 3, Message = ''could not get result: '' @ err\<rparr>
                  | ReadError s err \<Rightarrow>
                      out = Inr \<lparr>ExitCode = 3, Message = ''could not read content body: '' @ err\<rparr>
                  | Answer s b \<Rightarrow>
                      if s > 500 then
                        n = 2 \<and>
                        out = Inr \<lparr>ExitCode = 3,
                                   Message = ''graphite api has internal problems, answered with status code: ''
                                               @ fmt_d s\<rparr>
                      else if s \<noteq> 200 then
                        out = Inr \<lparr>ExitCode = 3,
                                   Message = ''graphite api answered with status code '' @ fmt_d s\<rparr>
                      else
                        out = evaluate lib \<lparr>ExitCode = 3, Message = []\<rparr>
                                ''no values received! Is the host down?!''
                                w e global_message (Some 200) b True)"
      by blast
  qed
  have main_defaults: "?parse_main \<longrightarrow> ?main_defaults"
  proof
    assume parse: ?parse_main
    note d = Parse_defaults_main [OF parse]
    show ?main_defaults
      by (rule conjI [OF d(1) conjI [OF d(2) conjI [OF d(3) conjI [OF d(4) conjI [OF d(5) d(6)]]]]])
  qed
  show ?thesis
    by (rule conjI [OF empty conjI [OF runner conjI [OF main_early conjI [OF main_runs main_defaults]]]])
qed

theorem missing_inputs_witness:
  "runner_runCheck sample_lib backend_ok \<lparr>Command = [], ExitCodes = [], id' = 1, mappingId = 1\<rparr>
     = (Inl SliceBoundsOutOfRange, 0)
   \<and> Command \<lparr>Command = [''check_graphite'', ''-key'', ''a.b''], ExitCodes = [], id' = 1, mappingId = 1\<rparr>
     = ''check_graphite'' # [''-key'', ''a.b'']
   \<and> Parse (formal_runner sample_lib) new_flags [''-key'', ''a.b'']
     = (\<lparr>addr = [], interval = ''60s'', levelWarn = 0, levelErr = 0, key = ''a.b'',
         message = ''current value: %f'', retries = 0\<rparr>, None)
   \<and> flag_name ''-key'' = ''key'' \<and> flag_name ''a.b'' = ''.b''
   \<and> runner_runCheck sample_lib backend_ok
         \<lparr>Command = [''check_graphite'', ''-key'', ''a.b''], ExitCodes = [], id' = 1, mappingId = 1\<rparr>
     = (Inr \<lparr>ExitCode = 3, Message = ''no address given to check''\<rparr>, 0)
   \<and> Parse (formal_runner sample_lib) new_flags [''-addr=http://g'', ''-key=a.b'']
     = (\<lparr>addr = ''http://g'', interval = ''60s'', levelWarn = 0, levelErr = 0, key = ''a.b'',
         message = ''current value: %f'', retries = 0\<rparr>, None)
   \<and> flag_name ''-addr=http://g'' = ''addr'' \<and> flag_name ''-key=a.b'' = ''key''
   \<and> render_URL sample_lib ''http://g'' ''a.b'' ''-60s''
     = Inr ''http://g/render?format=json&from=-60s&target=a.b''
   \<and> backend_ok ''http://g/render?format=json&from=-60s&target=a.b'' 0 = Answer 200 series_3_1
   \<and> runner_runCheck sample_lib backend_ok
         \<lparr>Command = [''check_graphite'', ''-addr=http://g'', ''-key=a.b''], ExitCodes = [], id' = 1,
          mappingId = 1\<rparr>
     = (evaluate sample_lib \<lparr>ExitCode = 3, Message = []\<rparr>
          ''No values received for query! Is the host down?'' 0 0 ''current value: %f''
          (Some 200) series_3_1 True, 1)
   \<and> evaluate sample_lib \<lparr>ExitCode = 3, Message = []\<rparr>
          ''No values received for query! Is the host down?'' 0 0 ''current value: %f''
          (Some 200) series_3_1 True
     = Inr \<lparr>ExitCode = 2, Message = ''current value: %f'' @ [CHR 0x0A]\<rparr>
   \<and> runCheck sample_lib ''current value: %f'' backend_ok [] ''a.b'' ''value: %f'' ''60s'' 4 8
     = (Inr \<lparr>ExitCode = 3, Message = ''no address given to check''\<rparr>, 0)
   \<and> runCheck sample_lib ''current value: %f'' backend_ok ''http://g'' ''a.b'' ''value: %f'' ''60s'' 4 8
     = (Inr \<lparr>ExitCode = 0, Message = ''current value: %f'' @ [CHR 0x0A]\<rparr>, 1)
   \<and> Parse (formal_main sample_lib) new_flags_main [''-key'', ''a.b'']
     = (\<lparr>addr = [], interval = ''60s'', levelWarn = 0, levelErr = 0, key = ''a.b'',
         message = ''current value: %f''\<rparr>, None)"
  using
    missing_inputs [where check = "\<lparr>Command = [], ExitCodes = [], id' = 1, mappingId = 1\<rparr>"
      and lib = sample_lib and c = backend_ok]
    missing_inputs [where check = "\<lparr>Command = [''check_graphite'', ''-key'', ''a.b''], ExitCodes = [],
                                   id' = 1, mappingId = 1\<rparr>"
      and prog = "''check_graphite''" and args = "[''-key'', ''a.b'']" and lib = sample_lib
      and fs = "\<lparr>addr = [], interval = ''60s'', levelWarn = 0, levelErr = 0, key = ''a.b'',
                 message = ''current value: %f'', retries = 0\<rparr>"
      and perr = None and c = backend_ok and a = "[]" and i = "''60s''" and k = "''a.b''"
      and global_message = "''current value: %f''" and tmpl = "''value: %f''" and w = 4 and e = 8
      and args' = "[''-key'', ''a.b'']"
      and fm = "\<lparr>addr = [], interval = ''60s'', levelWarn = 0, levelErr = 0, key = ''a.b'',
                 message = ''current value: %f''\<rparr>"
      and perr' = None]
    missing_inputs [where check = "\<lparr>Command = [''check_graphite'', ''-addr=http://g'', ''-key=a.b''],
                                   ExitCodes = [], id' = 1, mappingId = 1\<rparr>"
      and prog = "''check_graphite''" and args = "[''-addr=http://g'', ''-key=a.b'']"
      and lib = sample_lib
      and fs = "\<lparr>addr = ''http://g'', interval = ''60s'', levelWarn = 0, levelErr = 0, key = ''a.b'',
                 message = ''current value: %f'', retries = 0\<rparr>"
      and perr = None and c = backend_ok
      and url = "''http://g/render?format=json&from=-60s&target=a.b''"
      and a = "''http://g''" and i = "''60s''" and k = "''a.b''"
      and global_message = "''current value: %f''" and tmpl = "''value: %f''" and w = 4 and e = 8
      and url' = "''http://g/render?format=json&from=-60s&target=a.b''"]
  by (simp add: flag_name_def eval_simps)

text \<open>
  With only the address and the key given, the other five inputs of the claim are
  missing; the executor sends a request and answers with code 2.
\<close>

theorem defaults_run_the_check:
  "runner_runCheck sample_lib backend_ok
     \<lparr>Command = [''check_graphite'', ''-addr'', ''http://g'', ''-key'', ''a.b''],
      ExitCodes = [], id' = 1, mappingId = 1\<rparr>
   = (Inr \<lparr>ExitCode = 2, Message = ''current value: %f'' @ [CHR 0x0A]\<rparr>, 1)"
  by (simp add: eval_simps)

subsection \<open>Independence of the checks of one worker\<close>

lemma runner_runCheck_only_Command:
  "Command check1 = Command check2 \<Longrightarrow> runner_runCheck lib c check1 = runner_runCheck lib c check2"
  by (simp add: runner_runCheck_def)

lemma runCheck_ignores_msg:
  "runCheck lib global_message c a k msg1 i w e = runCheck lib global_message c a k msg2 i w e"
  by (simp add: runCheck_def)

text \<open>
  C10. \<^verbatim>\<open>runner.runCheck\<close> declares its flag set anew in every call, and its
  result is a function of the command tokens and the answers of the backend
  (\<open>runner_runCheck_only_Command\<close>). The worker of the older main.go declares one
  flag set per goroutine and parses every check into it: a check that gives no
  \<^verbatim>\<open>-warn\<close> and \<^verbatim>\<open>-error\<close> is evaluated with the levels of the check before
  it. The same check, with the same answer of the backend, ends in code 2 on a fresh
  flag set and in code 0 after a check with the levels 10 and 20.
\<close>

theorem flags_of_an_earlier_check:
  "worker_turn sample_lib ''current value: %f'' backend_ok 130
       (claimed (row_of [''check_graphite'', ''-addr'', ''http://g'', ''-key'', ''a.b''] [0] False))
       new_flags_main
     = (\<lparr>addr = ''http://g'', interval = ''60s'', levelWarn = 0, levelErr = 0, key = ''a.b'',
         message = ''current value: %f''\<rparr>,
        Inr (Some \<lparr>check_id = 7, cmdLine = [''check_graphite'', ''-addr'', ''http://g'', ''-key'', ''a.b''],
                   states = [2, 0], mapping_id = 1, msg = ''current value: %f'' @ [CHR 0x0A],
                   acknowledged = False, next_time = 190, intval = 60, state_since = 130\<rparr>))
   \<and> worker_turn sample_lib ''current value: %f'' backend_ok 130
       (claimed (row_of [''check_graphite'', ''-addr'', ''http://g'', ''-key'', ''a.b''] [0] False))
       (fst (worker_turn sample_lib ''current value: %f'' backend_ok 70
              (claimed (row_of [''check_graphite'', ''-addr'', ''http://h'', ''-key'', ''c.d'',
                                ''-warn'', ''10'', ''-error'', ''20''] [0] False))
              new_flags_main))
     = (\<lparr>addr = ''http://g'', interval = ''60s'', levelWarn = 10, levelErr = 20, key = ''a.b'',
         message = ''current value: %f''\<rparr>,
        Inr (Some \<lparr>check_id = 7, cmdLine = [''check_graphite'', ''-addr'', ''http://g'', ''-key'', ''a.b''],
                   states = [0, 0], mapping_id = 1, msg = ''current value: %f'' @ [CHR 0x0A],
                   acknowledged = False, next_time = 190, intval = 60, state_since = 40\<rparr>))"
  by (simp add: worker_turn_def array_out_def Scan_def bytes_Trim_def ToOK_def update_active_check_def
       claimed_def row_of_def eval_simps)

section \<open>Properties of the subprocess executor\<close>




end
